theory Spec2Isabelle
  imports Main "HOL-Library.Multiset"
begin

section \<open>Strings and JavaScript values\<close>

text \<open>
  A JavaScript string is modelled by the list of its UTF-8 bytes, which is how the literals
  stand in \<^verbatim>\<open>server.js\<close>. Concatenation, equality and emptiness of well-formed strings
  agree with those of the byte lists. A string that may be \<^verbatim>\<open>undefined\<close> is an
  \<open>option\<close>, with \<open>None\<close> for \<^verbatim>\<open>undefined\<close>.
\<close>

definition Taipei :: string where
  "Taipei = [CHR 0xE8, CHR 0x87, CHR 0xBA, CHR 0xE5, CHR 0x8C, CHR 0x97, CHR 0xE5, CHR 0xB8, CHR 0x82]"

definition NewTaipei :: string where
  "NewTaipei = [CHR 0xE6, CHR 0x96, CHR 0xB0, CHR 0xE5, CHR 0x8C, CHR 0x97, CHR 0xE5, CHR 0xB8, CHR 0x82]"

definition Taoyuan :: string where
  "Taoyuan = [CHR 0xE6, CHR 0xA1, CHR 0x83, CHR 0xE5, CHR 0x9C, CHR 0x92, CHR 0xE5, CHR 0xB8, CHR 0x82]"

definition Taichung :: string where
  "Taichung = [CHR 0xE8, CHR 0x87, CHR 0xBA, CHR 0xE4, CHR 0xB8, CHR 0xAD, CHR 0xE5, CHR 0xB8, CHR 0x82]"

definition Tainan :: string where
  "Tainan = [CHR 0xE8, CHR 0x87, CHR 0xBA, CHR 0xE5, CHR 0x8D, CHR 0x97, CHR 0xE5, CHR 0xB8, CHR 0x82]"

definition Kaohsiung :: string where
  "Kaohsiung = [CHR 0xE9, CHR 0xAB, CHR 0x98, CHR 0xE9, CHR 0x9B, CHR 0x84, CHR 0xE5, CHR 0xB8, CHR 0x82]"

text \<open>The message of line 35: the request to set \<^verbatim>\<open>CWA_API_KEY\<close> in the \<^verbatim>\<open>.env\<close> file.\<close>

definition msg_missing_key :: string where
  "msg_missing_key =
     [CHR 0xE8, CHR 0xAB, CHR 0x8B, CHR 0xE5, CHR 0x9C, CHR 0xA8] @ '' .env ''
     @ [CHR 0xE6, CHR 0xAA, CHR 0x94, CHR 0xE6, CHR 0xA1, CHR 0x88, CHR 0xE4, CHR 0xB8, CHR 0xAD,
        CHR 0xE8, CHR 0xA8, CHR 0xAD, CHR 0xE5, CHR 0xAE, CHR 0x9A]
     @ '' CWA_API_KEY''"

text \<open>The two halves of the template literal of line 54, around the city name.\<close>

definition msg_cannot_get :: string where
  "msg_cannot_get =
     [CHR 0xE7, CHR 0x84, CHR 0xA1, CHR 0xE6, CHR 0xB3, CHR 0x95, CHR 0xE5, CHR 0x8F, CHR 0x96,
      CHR 0xE5, CHR 0xBE, CHR 0x97]"

definition msg_weather_data :: string where
  "msg_weather_data =
     [CHR 0xE5, CHR 0xA4, CHR 0xA9, CHR 0xE6, CHR 0xB0, CHR 0xA3, CHR 0xE8, CHR 0xB3, CHR 0x87,
      CHR 0xE6, CHR 0x96, CHR 0x99]"

text \<open>The two halves of the template literal of line 124 (the console line).\<close>

definition log_get :: string where
  "log_get = [CHR 0xE5, CHR 0x8F, CHR 0x96, CHR 0xE5, CHR 0xBE, CHR 0x97]"

definition log_failed :: string where
  "log_failed = msg_weather_data @ [CHR 0xE5, CHR 0xA4, CHR 0xB1, CHR 0xE6, CHR 0x95, CHR 0x97] @ '':''"

text \<open>The \<^verbatim>\<open>error\<close> tags and fallback messages of lines 129, 130, 137 and 138.\<close>

definition tag_cwa_api_error :: string where
  "tag_cwa_api_error = ''CWA API '' @ [CHR 0xE9, CHR 0x8C, CHR 0xAF, CHR 0xE8, CHR 0xAA, CHR 0xA4]"

definition tag_server_error :: string where
  "tag_server_error =
     [CHR 0xE4, CHR 0xBC, CHR 0xBA, CHR 0xE6, CHR 0x9C, CHR 0x8D, CHR 0xE5, CHR 0x99, CHR 0xA8,
      CHR 0xE9, CHR 0x8C, CHR 0xAF, CHR 0xE8, CHR 0xAA, CHR 0xA4]"

definition fallback_upstream :: string where
  "fallback_upstream = msg_cannot_get @ msg_weather_data"

definition fallback_server :: string where
  "fallback_server =
     msg_cannot_get @ msg_weather_data @ '',''
     @ [CHR 0xE8, CHR 0xAB, CHR 0x8B, CHR 0xE7, CHR 0xA8, CHR 0x8D, CHR 0xE5, CHR 0xBE, CHR 0x8C,
        CHR 0xE5, CHR 0x86, CHR 0x8D, CHR 0xE8, CHR 0xA9, CHR 0xA6]"

definition degrees_celsius :: string where
  "degrees_celsius = [CHR 0xC2, CHR 0xB0] @ ''C''"

text \<open>
  What reading a property of \<^verbatim>\<open>CITY_MAP\<close> can give: \<^verbatim>\<open>undefined\<close>, a string, or a
  function or object, which is represented by the text that its conversion to a string yields.
\<close>

datatype js_value = Undefined | Str string | Other string

text \<open>A value inside a template literal.\<close>

fun to_string :: "js_value \<Rightarrow> string" where
  "to_string Undefined = ''undefined''"
| "to_string (Str s) = s"
| "to_string (Other t) = t"

text \<open>
  Truthiness of a string or \<^verbatim>\<open>undefined\<close>, and \<^verbatim>\<open>a || b\<close> on it: \<^verbatim>\<open>undefined\<close>
  and the empty string are falsy.
\<close>

fun truthy :: "string option \<Rightarrow> bool" where
  "truthy None = False"
| "truthy (Some s) = (s \<noteq> [])"

definition or_else :: "string option \<Rightarrow> string \<Rightarrow> string" where
  "or_else a b = (if truthy a then the a else b)"

text \<open>Reading index \<open>i\<close> of an array: \<^verbatim>\<open>undefined\<close> beyond its length.\<close>

fun at_index :: "'a list \<Rightarrow> nat \<Rightarrow> 'a option" where
  "at_index [] i = None"
| "at_index (x # xs) 0 = Some x"
| "at_index (x # xs) (Suc i) = at_index xs i"

section \<open>The city table\<close>

definition CITY_MAP :: "(string \<times> string) list" where
  "CITY_MAP =
     [(''taipei'', Taipei), (''newtaipei'', NewTaipei), (''taoyuan'', Taoyuan),
      (''taichung'', Taichung), (''tainan'', Tainan), (''kaohsiung'', Kaohsiung)]"

section \<open>The upstream payload\<close>

text \<open>
  The payload of the forecast dataset, with the fields that \<^verbatim>\<open>getWeatherData\<close> reads.
  Objects and their fields are as the upstream schema has them; the lengths of the arrays
  are arbitrary.
\<close>

record parameter =
  parameterName :: string

record time_entry =
  startTime :: string
  endTime :: string
  parameter :: parameter

record weather_element =
  elementName :: string
  time :: "time_entry list"

record location_record =
  locationName :: string
  weatherElement :: "weather_element list"

record cwa_records =
  datasetDescription :: string
  location :: "location_record list"

record cwa_data =
  records :: cwa_records

text \<open>
  The body of an upstream error response, \<^verbatim>\<open>error.response.data\<close>: the JSON value
  \<^verbatim>\<open>null\<close>, or a JSON object that may carry a \<^verbatim>\<open>message\<close>, with its other fields.
\<close>

record error_body =
  message :: "string option"
  others :: "(string \<times> string) list"

datatype upstream_body = NullBody | ObjectBody error_body

record 'a axios_response =
  status :: nat
  data :: 'a

section \<open>Errors\<close>

text \<open>
  The three kinds of exception that occur: \<^verbatim>\<open>new Error(message)\<close>, the runtime's
  \<^verbatim>\<open>TypeError\<close> on reading a property of \<^verbatim>\<open>undefined\<close>, and the rejection of
  \<^verbatim>\<open>axios.get\<close>, which carries \<^verbatim>\<open>response\<close> when the upstream answered.
\<close>

datatype js_error =
    Error string
  | TypeError string
  | AxiosError string "upstream_body axios_response option"

fun error_message :: "js_error \<Rightarrow> string" where
  "error_message (Error m) = m"
| "error_message (TypeError m) = m"
| "error_message (AxiosError m r) = m"

fun error_response :: "js_error \<Rightarrow> upstream_body axios_response option" where
  "error_response (Error m) = None"
| "error_response (TypeError m) = None"
| "error_response (AxiosError m r) = r"

text \<open>
  The \<^verbatim>\<open>TypeError\<close> for reading property \<open>p\<close> of \<^verbatim>\<open>undefined\<close>, with the message
  that Node.js gives it.
\<close>

definition cannot_read :: "string \<Rightarrow> js_error" where
  "cannot_read p = TypeError (''Cannot read properties of undefined (reading '' @ [CHR 0x27] @ p @ [CHR 0x27] @ '')'')"

text \<open>The same for reading property \<open>p\<close> of \<^verbatim>\<open>null\<close>.\<close>

definition cannot_read_null :: "string \<Rightarrow> js_error" where
  "cannot_read_null p = TypeError (''Cannot read properties of null (reading '' @ [CHR 0x27] @ p @ [CHR 0x27] @ '')'')"

section \<open>The environment\<close>

datatype request = Get (url: string) (Authorization: string) (param_locationName: js_value)

text \<open>
  What the code takes from outside: \<^verbatim>\<open>process.env.CWA_API_KEY\<close>; the behaviour of
  \<^verbatim>\<open>axios.get\<close>, a rejection (message and optional response) or a response; and the
  properties of \<^verbatim>\<open>Object.prototype\<close>, which every object literal inherits.
\<close>

record env =
  CWA_API_KEY :: "string option"
  axios_get :: "request \<Rightarrow> (string \<times> upstream_body axios_response option) + cwa_data axios_response"
  Object_prototype :: "(string \<times> js_value) list"

definition CWA_API_BASE_URL :: string where
  "CWA_API_BASE_URL = ''https://opendata.cwa.gov.tw/api''"

text \<open>
  \<^verbatim>\<open>CITY_MAP[cityKey]\<close>: the own property of the object literal when there is one, else the
  property inherited from \<^verbatim>\<open>Object.prototype\<close>, else \<^verbatim>\<open>undefined\<close>.
\<close>

definition city_lookup :: "env \<Rightarrow> string \<Rightarrow> js_value" where
  "city_lookup e cityKey =
     (case map_of CITY_MAP cityKey of
        Some name \<Rightarrow> Str name
      | None \<Rightarrow>
          (case map_of (Object_prototype e) cityKey of
             Some inherited \<Rightarrow> inherited
           | None \<Rightarrow> Undefined))"

section \<open>getWeatherData\<close>

record forecast =
  fc_startTime :: string
  fc_endTime :: string
  weather :: string
  rain :: string
  minTemp :: string
  maxTemp :: string
  comfort :: string
  windSpeed :: string

record weather_data =
  city :: string
  updateTime :: string
  forecasts :: "forecast list"

text \<open>Lines 69 to 78: the fresh forecast of interval \<open>i\<close>.\<close>

definition new_forecast :: "weather_element list \<Rightarrow> nat \<Rightarrow> js_error + forecast" where
  "new_forecast weatherElements i =
     (case at_index weatherElements 0 of
        None \<Rightarrow> Inl (cannot_read ''time'')
      | Some first \<Rightarrow>
          (case at_index (time first) i of
             None \<Rightarrow> Inl (cannot_read ''startTime'')
           | Some t \<Rightarrow>
               Inr \<lparr>fc_startTime = startTime t, fc_endTime = endTime t, weather = [], rain = [],
                    minTemp = [], maxTemp = [], comfort = [], windSpeed = []\<rparr>))"

text \<open>Lines 82 to 101: the \<^verbatim>\<open>switch\<close> on the element's name, assigning one field.\<close>

definition switch :: "string \<Rightarrow> parameter \<Rightarrow> forecast \<Rightarrow> forecast" where
  "switch name value forecast =
     (if name = ''Wx'' then forecast\<lparr>weather := parameterName value\<rparr>
      else if name = ''PoP'' then forecast\<lparr>rain := parameterName value @ ''%''\<rparr>
      else if name = ''MinT'' then forecast\<lparr>minTemp := parameterName value @ degrees_celsius\<rparr>
      else if name = ''MaxT'' then forecast\<lparr>maxTemp := parameterName value @ degrees_celsius\<rparr>
      else if name = ''CI'' then forecast\<lparr>comfort := parameterName value\<rparr>
      else if name = ''WS'' then forecast\<lparr>windSpeed := parameterName value\<rparr>
      else forecast)"

text \<open>
  Lines 81 to 101: the \<^verbatim>\<open>forEach\<close> callback. It reads \<^verbatim>\<open>element.time[i].parameter\<close>
  first, for every element, whatever its name.
\<close>

definition callback :: "nat \<Rightarrow> forecast \<Rightarrow> weather_element \<Rightarrow> js_error + forecast" where
  "callback i forecast element =
     (case at_index (time element) i of
        None \<Rightarrow> Inl (cannot_read ''parameter'')
      | Some t \<Rightarrow> Inr (switch (elementName element) (parameter t) forecast))"

text \<open>Lines 80 to 102: \<^verbatim>\<open>forEach\<close> runs the callback on the elements in order; an exception ends it.\<close>

fun forEach :: "weather_element list \<Rightarrow> nat \<Rightarrow> forecast \<Rightarrow> js_error + forecast" where
  "forEach [] i forecast = Inr forecast"
| "forEach (element # rest) i forecast =
     (case callback i forecast element of
        Inl e \<Rightarrow> Inl e
      | Inr forecast' \<Rightarrow> forEach rest i forecast')"

text \<open>Lines 69 to 102: one round of the loop, the forecast of interval \<open>i\<close>.\<close>

definition interval :: "weather_element list \<Rightarrow> nat \<Rightarrow> js_error + forecast" where
  "interval weatherElements i =
     (case new_forecast weatherElements i of
        Inl e \<Rightarrow> Inl e
      | Inr forecast \<Rightarrow> forEach weatherElements i forecast)"

text \<open>Lines 68 to 105: the loop over the interval index, pushing one forecast per round.\<close>

function for_loop :: "weather_element list \<Rightarrow> nat \<Rightarrow> nat \<Rightarrow> forecast list \<Rightarrow> js_error + forecast list" where
  "for_loop weatherElements timeCount i acc =
     (if i < timeCount then
        (case interval weatherElements i of
           Inl e \<Rightarrow> Inl e
         | Inr forecast \<Rightarrow> for_loop weatherElements timeCount (Suc i) (acc @ [forecast]))
      else Inr acc)"
  by pat_completeness auto
termination
  by (relation "measure (\<lambda>(weatherElements, timeCount, i, acc). timeCount - i)") auto

declare for_loop.simps [simp del]

text \<open>Lines 51 to 107: from the response to the weather data.\<close>

definition normalize :: "js_value \<Rightarrow> cwa_data axios_response \<Rightarrow> js_error + weather_data" where
  "normalize cityName response =
     (case at_index (location (records (data response))) 0 of
        None \<Rightarrow> Inl (Error (msg_cannot_get @ to_string cityName @ msg_weather_data))
      | Some locationData \<Rightarrow>
          (let weatherElements = weatherElement locationData in
           case at_index weatherElements 0 of
             None \<Rightarrow> Inl (cannot_read ''time'')
           | Some first \<Rightarrow>
               (let timeCount = length (time first) in
                case for_loop weatherElements timeCount 0 [] of
                  Inl e \<Rightarrow> Inl e
                | Inr fs \<Rightarrow>
                    Inr \<lparr>city = locationName locationData,
                         updateTime = datasetDescription (records (data response)),
                         forecasts = fs\<rparr>)))"

text \<open>Lines 40 to 48: the request for the 36-hour forecast dataset.\<close>

definition forecast_request :: "string \<Rightarrow> js_value \<Rightarrow> request" where
  "forecast_request key cityName =
     Get (CWA_API_BASE_URL @ ''/v1/rest/datastore/F-C0032-001'') key cityName"

text \<open>
  Lines 32 to 108. The result is paired with the requests that were issued to the upstream.
\<close>

definition getWeatherData :: "env \<Rightarrow> js_value \<Rightarrow> request list \<times> (js_error + weather_data)" where
  "getWeatherData e cityName =
     (if \<not> truthy (CWA_API_KEY e) then ([], Inl (Error msg_missing_key))
      else
        (let req = forecast_request (the (CWA_API_KEY e)) cityName
         in case axios_get e req of
              Inl (m, r) \<Rightarrow> ([req], Inl (AxiosError m r))
            | Inr response \<Rightarrow> ([req], normalize cityName response)))"

section \<open>getCityWeather\<close>

text \<open>The three shapes of body that a handler sends.\<close>

datatype response_body =
    SuccessBody bool weather_data
  | UpstreamErrorBody string string upstream_body
  | ServerErrorBody string string

text \<open>
  The response object: \<^verbatim>\<open>res.status(c)\<close> sets the status code (200 at first) and
  \<^verbatim>\<open>res.json(b)\<close> sends a response with the current status code.
\<close>

record res_state =
  statusCode :: nat
  sent :: "(nat \<times> response_body) list"

definition fresh_res :: res_state where
  "fresh_res = \<lparr>statusCode = 200, sent = []\<rparr>"

definition res_status :: "nat \<Rightarrow> res_state \<Rightarrow> res_state" where
  "res_status c res = res\<lparr>statusCode := c\<rparr>"

definition res_json :: "response_body \<Rightarrow> res_state \<Rightarrow> res_state" where
  "res_json b res = res\<lparr>sent := sent res @ [(statusCode res, b)]\<rparr>"

text \<open>
  What a run of a handler leaves: the upstream requests, the console lines, the response
  object, and the exception that left the handler uncaught, if any (the rejection of the
  promise that the handler returns).
\<close>

record run =
  requests :: "request list"
  console :: "(string \<times> string) list"
  res :: res_state
  uncaught :: "js_error option"

text \<open>
  Lines 113 to 142: the handler bound to \<open>cityKey\<close>, run on a response object. In the branch
  of line 126, \<^verbatim>\<open>res.status\<close> is called first; the argument of \<^verbatim>\<open>json\<close> is evaluated next,
  and reading \<^verbatim>\<open>message\<close> of a \<^verbatim>\<open>null\<close> body throws there, inside the \<^verbatim>\<open>catch\<close> block.
\<close>

definition getCityWeather :: "env \<Rightarrow> string \<Rightarrow> res_state \<Rightarrow> run" where
  "getCityWeather e cityKey res0 =
     (let cityName = city_lookup e cityKey;
          (reqs, result) = getWeatherData e cityName
      in case result of
           Inr weatherData \<Rightarrow>
             \<lparr>requests = reqs, console = [],
              res = res_json (SuccessBody True weatherData) res0, uncaught = None\<rparr>
         | Inl error \<Rightarrow>
             (let line = (log_get @ to_string (city_lookup e cityKey) @ log_failed, error_message error)
              in case error_response error of
                   Some response \<Rightarrow>
                     (case data response of
                        NullBody \<Rightarrow>
                          \<lparr>requests = reqs, console = [line],
                           res = res_status (status response) res0,
                           uncaught = Some (cannot_read_null ''message'')\<rparr>
                      | ObjectBody body \<Rightarrow>
                          \<lparr>requests = reqs, console = [line],
                           res = res_json (UpstreamErrorBody tag_cwa_api_error
                                             (or_else (message body) fallback_upstream)
                                             (data response))
                                   (res_status (status response) res0),
                           uncaught = None\<rparr>)
                 | None \<Rightarrow>
                     \<lparr>requests = reqs, console = [line],
                      res = res_json (ServerErrorBody tag_server_error
                                        (or_else (Some (error_message error)) fallback_server))
                              (res_status 500 res0),
                      uncaught = None\<rparr>))"

section \<open>Auxiliary notions\<close>

text \<open>
  The forecast of lines 69 to 78 for a time entry, and the assignment that the callback makes
  for an element whose entry \<open>i\<close> exists.
\<close>

definition blank :: "time_entry \<Rightarrow> forecast" where
  "blank t = \<lparr>fc_startTime = startTime t, fc_endTime = endTime t, weather = [], rain = [],
              minTemp = [], maxTemp = [], comfort = [], windSpeed = []\<rparr>"

definition assign :: "nat \<Rightarrow> weather_element \<Rightarrow> forecast \<Rightarrow> forecast" where
  "assign i e f = switch (elementName e) (parameter (time e ! i)) f"

text \<open>An element with its time series cut to the first \<open>n\<close> entries.\<close>

definition cut_to :: "nat \<Rightarrow> weather_element \<Rightarrow> weather_element" where
  "cut_to n element = element\<lparr>time := take n (time element)\<rparr>"

text \<open>
  The response with the weather elements of its first location record replaced by \<open>es\<close>.
\<close>

definition with_elements :: "weather_element list \<Rightarrow> cwa_data axios_response \<Rightarrow> cwa_data axios_response" where
  "with_elements es response =
     response\<lparr>data := (data response)\<lparr>records := (records (data response))
       \<lparr>location := (case location (records (data response)) of
                        [] \<Rightarrow> []
                      | loc # locs \<Rightarrow> loc\<lparr>weatherElement := es\<rparr> # locs)\<rparr>\<rparr>\<rparr>"

text \<open>The response with its location collection replaced by \<open>ls\<close>.\<close>

definition with_locations :: "location_record list \<Rightarrow> cwa_data axios_response \<Rightarrow> cwa_data axios_response" where
  "with_locations ls response =
     response\<lparr>data := (data response)\<lparr>records := (records (data response))\<lparr>location := ls\<rparr>\<rparr>\<rparr>"

text \<open>The element names that the \<^verbatim>\<open>switch\<close> has a case for.\<close>

definition recognized :: "string \<Rightarrow> bool" where
  "recognized name = (name \<in> set [''Wx'', ''PoP'', ''MinT'', ''MaxT'', ''CI'', ''WS''])"

text \<open>A forecast whose six semantic fields are all non-empty.\<close>

definition populated :: "forecast \<Rightarrow> bool" where
  "populated f = (weather f \<noteq> [] \<and> rain f \<noteq> [] \<and> minTemp f \<noteq> [] \<and> maxTemp f \<noteq> []
                  \<and> comfort f \<noteq> [] \<and> windSpeed f \<noteq> [])"

text \<open>
  The alignment of the upstream contract: all elements have the same number of entries, with
  the same start and end times at each index.
\<close>

definition aligned :: "weather_element list \<Rightarrow> bool" where
  "aligned es =
     list_all (\<lambda>e. list_all (\<lambda>e'. map startTime (time e) = map startTime (time e')
                                 \<and> map endTime (time e) = map endTime (time e')) es) es"

section \<open>Example inputs\<close>

text \<open>
  The properties of \<^verbatim>\<open>Object.prototype\<close> in Node.js, each with the text that its conversion
  to a string yields.
\<close>

definition native :: "string \<Rightarrow> js_value" where
  "native name = Other (''function '' @ name @ ''() { [native code] }'')"

definition node_prototype :: "(string \<times> js_value) list" where
  "node_prototype =
     [(''constructor'', native ''Object''),
      (''__defineGetter__'', native ''__defineGetter__''),
      (''__defineSetter__'', native ''__defineSetter__''),
      (''hasOwnProperty'', native ''hasOwnProperty''),
      (''__lookupGetter__'', native ''__lookupGetter__''),
      (''__lookupSetter__'', native ''__lookupSetter__''),
      (''isPrototypeOf'', native ''isPrototypeOf''),
      (''propertyIsEnumerable'', native ''propertyIsEnumerable''),
      (''toString'', native ''toString''),
      (''valueOf'', native ''valueOf''),
      (''__proto__'', Other ''[object Object]''),
      (''toLocaleString'', native ''toLocaleString'')]"

definition env_no_key :: env where
  "env_no_key =
     \<lparr>CWA_API_KEY = None, axios_get = (\<lambda>req. Inl (''Network Error'', None)),
      Object_prototype = node_prototype\<rparr>"

definition env_rejecting :: "string \<Rightarrow> upstream_body axios_response option \<Rightarrow> env" where
  "env_rejecting m r =
     \<lparr>CWA_API_KEY = Some ''key'', axios_get = (\<lambda>req. Inl (m, r)),
      Object_prototype = node_prototype\<rparr>"

definition body_maintenance :: upstream_body where
  "body_maintenance = ObjectBody \<lparr>message = Some ''maintenance'', others = []\<rparr>"

definition body_no_message :: upstream_body where
  "body_no_message = ObjectBody \<lparr>message = None, others = [(''code'', ''E1'')]\<rparr>"

definition env_maintenance :: env where
  "env_maintenance =
     env_rejecting ''Request failed with status code 503''
       (Some \<lparr>status = 503, data = body_maintenance\<rparr>)"

definition env_no_message :: env where
  "env_no_message =
     env_rejecting ''Request failed with status code 503''
       (Some \<lparr>status = 503, data = body_no_message\<rparr>)"

definition env_null_body :: env where
  "env_null_body =
     env_rejecting ''Request failed with status code 503''
       (Some \<lparr>status = 503, data = NullBody\<rparr>)"

definition env_network_error :: env where
  "env_network_error = env_rejecting ''Network Error'' None"

definition entry :: "string \<Rightarrow> string \<Rightarrow> string \<Rightarrow> time_entry" where
  "entry s e p = \<lparr>startTime = s, endTime = e, parameter = \<lparr>parameterName = p\<rparr>\<rparr>"

definition response_with :: "location_record list \<Rightarrow> cwa_data axios_response" where
  "response_with ls =
     \<lparr>status = 200, data = \<lparr>records = \<lparr>datasetDescription = ''36h forecast'', location = ls\<rparr>\<rparr>\<rparr>"

definition env_with :: "cwa_data axios_response \<Rightarrow> env" where
  "env_with response =
     \<lparr>CWA_API_KEY = Some ''key'', axios_get = (\<lambda>req. Inr response),
      Object_prototype = node_prototype\<rparr>"

definition loc_new_taipei :: location_record where
  "loc_new_taipei =
     \<lparr>locationName = NewTaipei,
      weatherElement = [\<lparr>elementName = ''Wx'', time = [entry ''06:00'' ''18:00'' ''sunny'']\<rparr>]\<rparr>"

definition data_new_taipei :: weather_data where
  "data_new_taipei =
     \<lparr>city = NewTaipei, updateTime = ''36h forecast'',
      forecasts = [\<lparr>fc_startTime = ''06:00'', fc_endTime = ''18:00'', weather = ''sunny'', rain = [],
                    minTemp = [], maxTemp = [], comfort = [], windSpeed = []\<rparr>]\<rparr>"

definition loc_no_elements :: location_record where
  "loc_no_elements = \<lparr>locationName = Taipei, weatherElement = []\<rparr>"

definition el :: "string \<Rightarrow> string \<Rightarrow> weather_element" where
  "el name p = \<lparr>elementName = name, time = [entry ''06:00'' ''18:00'' p]\<rparr>"

definition six_elements :: "weather_element list" where
  "six_elements =
     [el ''Wx'' ''sunny'', el ''PoP'' ''20'', el ''MinT'' ''18'', el ''MaxT'' ''25'',
      el ''CI'' ''comfortable'', el ''WS'' ''light'']"

definition loc_six :: location_record where
  "loc_six = \<lparr>locationName = Taipei, weatherElement = six_elements\<rparr>"

definition data_six :: weather_data where
  "data_six =
     \<lparr>city = Taipei, updateTime = ''36h forecast'',
      forecasts = [\<lparr>fc_startTime = ''06:00'', fc_endTime = ''18:00'', weather = ''sunny'',
                    rain = ''20%'', minTemp = ''18'' @ degrees_celsius,
                    maxTemp = ''25'' @ degrees_celsius, comfort = ''comfortable'',
                    windSpeed = ''light''\<rparr>]\<rparr>"

definition loc_empty_text :: location_record where
  "loc_empty_text = \<lparr>locationName = Taipei, weatherElement = el ''Wx'' [] # tl six_elements\<rparr>"

definition data_empty_text :: weather_data where
  "data_empty_text =
     \<lparr>city = Taipei, updateTime = ''36h forecast'',
      forecasts = [\<lparr>fc_startTime = ''06:00'', fc_endTime = ''18:00'', weather = [],
                    rain = ''20%'', minTemp = ''18'' @ degrees_celsius,
                    maxTemp = ''25'' @ degrees_celsius, comfort = ''comfortable'',
                    windSpeed = ''light''\<rparr>]\<rparr>"

definition loc_short_extra :: location_record where
  "loc_short_extra =
     \<lparr>locationName = Taipei, weatherElement = six_elements @ [\<lparr>elementName = ''UVI'', time = []\<rparr>]\<rparr>"

definition loc_short_pop :: location_record where
  "loc_short_pop =
     \<lparr>locationName = Taipei,
      weatherElement =
        [\<lparr>elementName = ''Wx'', time = [entry ''06:00'' ''18:00'' ''sunny'', entry ''18:00'' ''06:00'' ''cloudy'']\<rparr>,
         el ''PoP'' ''20'']\<rparr>"

definition loc_long_pop :: location_record where
  "loc_long_pop =
     \<lparr>locationName = Taipei,
      weatherElement =
        [el ''Wx'' ''sunny'',
         \<lparr>elementName = ''PoP'', time = [entry ''06:00'' ''18:00'' ''20'', entry ''18:00'' ''06:00'' ''30'']\<rparr>]\<rparr>"

definition data_long_pop :: weather_data where
  "data_long_pop =
     \<lparr>city = Taipei, updateTime = ''36h forecast'',
      forecasts = [\<lparr>fc_startTime = ''06:00'', fc_endTime = ''18:00'', weather = ''sunny'',
                    rain = ''20%'', minTemp = [], maxTemp = [], comfort = [], windSpeed = []\<rparr>]\<rparr>"

definition loc_unknown :: location_record where
  "loc_unknown = \<lparr>locationName = Taipei, weatherElement = [el ''Wx'' ''sunny'', el ''UVI'' ''7'']\<rparr>"

definition loc_unknown_short :: location_record where
  "loc_unknown_short =
     \<lparr>locationName = Taipei,
      weatherElement = [el ''Wx'' ''sunny'', \<lparr>elementName = ''UVI'', time = []\<rparr>]\<rparr>"

definition data_sunny :: weather_data where
  "data_sunny =
     \<lparr>city = Taipei, updateTime = ''36h forecast'',
      forecasts = [\<lparr>fc_startTime = ''06:00'', fc_endTime = ''18:00'', weather = ''sunny'',
                    rain = [], minTemp = [], maxTemp = [], comfort = [], windSpeed = []\<rparr>]\<rparr>"

definition data_rain :: weather_data where
  "data_rain =
     \<lparr>city = Taipei, updateTime = ''36h forecast'',
      forecasts = [\<lparr>fc_startTime = ''06:00'', fc_endTime = ''18:00'', weather = ''rain'',
                    rain = [], minTemp = [], maxTemp = [], comfort = [], windSpeed = []\<rparr>]\<rparr>"

definition loc_two_wx :: location_record where
  "loc_two_wx = \<lparr>locationName = Taipei, weatherElement = [el ''Wx'' ''sunny'', el ''Wx'' ''rain'']\<rparr>"

section \<open>Reading arrays, the callback and the loop\<close>

lemma at_index_eq: "at_index xs i = (if i < length xs then Some (xs ! i) else None)"
  by (induction xs i rule: at_index.induct) auto

lemma callback_eq:
  "callback i f e = (if i < length (time e) then Inr (assign i e f) else Inl (cannot_read ''parameter''))"
  by (simp add: callback_def at_index_eq assign_def)

lemma forEach_eq:
  "forEach es i f =
     (if \<forall>e\<in>set es. i < length (time e) then Inr (fold (assign i) es f)
      else Inl (cannot_read ''parameter''))"
  by (induction es arbitrary: f) (auto simp: callback_eq)

lemma new_forecast_eq:
  "new_forecast (first # rest) i =
     (if i < length (time first) then Inr (blank (time first ! i)) else Inl (cannot_read ''startTime''))"
  by (simp add: new_forecast_def at_index_eq blank_def)

lemma interval_eq:
  "i < length (time first) \<Longrightarrow>
   interval (first # rest) i =
     (if \<forall>e\<in>set (first # rest). i < length (time e)
      then Inr (fold (assign i) (first # rest) (blank (time first ! i)))
      else Inl (cannot_read ''parameter''))"
  by (simp add: interval_def new_forecast_eq forEach_eq del: fold_simps)

lemma for_loop_cong:
  "(\<And>j. i \<le> j \<Longrightarrow> j < N \<Longrightarrow> interval es j = interval es' j) \<Longrightarrow>
   for_loop es N i acc = for_loop es' N i acc"
proof (induction es N i acc rule: for_loop.induct)
  case (1 es N i acc)
  show ?case
  proof (cases "i < N")
    case False
    then show ?thesis by (simp add: for_loop.simps)
  next
    case True
    have same: "interval es i = interval es' i" using 1(2) True by simp
    show ?thesis
    proof (cases "interval es i")
      case (Inl err)
      then show ?thesis using same True
        by (simp add: for_loop.simps [of es] for_loop.simps [of es'])
    next
      case (Inr f)
      have "for_loop es N (Suc i) (acc @ [f]) = for_loop es' N (Suc i) (acc @ [f])"
        using 1(1) [OF True Inr] 1(2) by simp
      moreover have "interval es' i = Inr f" using same Inr by simp
      ultimately show ?thesis using True Inr
        by (simp add: for_loop.simps [of es N i] for_loop.simps [of es' N i])
    qed
  qed
qed

lemma for_loop_ok:
  "(\<And>j. i \<le> j \<Longrightarrow> j < N \<Longrightarrow> interval es j = Inr (g j)) \<Longrightarrow>
   for_loop es N i acc = Inr (acc @ map g [i..<N])"
proof (induction es N i acc rule: for_loop.induct)
  case (1 es N i acc)
  show ?case
  proof (cases "i < N")
    case False
    then show ?thesis by (simp add: for_loop.simps)
  next
    case True
    have here: "interval es i = Inr (g i)" using 1(2) True by simp
    have "for_loop es N (Suc i) (acc @ [g i]) = Inr ((acc @ [g i]) @ map g [Suc i..<N])"
      using 1(1) [OF True here] 1(2) by simp
    then show ?thesis using here True
      by (simp add: for_loop.simps [of es N i] upt_conv_Cons)
  qed
qed

lemma for_loop_fail:
  "i \<le> k \<Longrightarrow> k < N \<Longrightarrow> interval es k = Inl err \<Longrightarrow>
   (\<And>j err'. j < N \<Longrightarrow> interval es j = Inl err' \<Longrightarrow> err' = err) \<Longrightarrow>
   for_loop es N i acc = Inl err"
proof (induction es N i acc rule: for_loop.induct)
  case (1 es N i acc)
  have iN: "i < N" using 1(2,3) by simp
  show ?case
  proof (cases "interval es i")
    case (Inl err')
    then have "err' = err" using 1(5) iN by blast
    then show ?thesis using Inl iN by (simp add: for_loop.simps [of es N i])
  next
    case (Inr f)
    then have "i \<noteq> k" using 1(4) by auto
    then have "Suc i \<le> k" using 1(2) by simp
    then have "for_loop es N (Suc i) (acc @ [f]) = Inl err"
      using 1(1) [OF iN Inr] 1(3,4,5) by blast
    then show ?thesis using Inr iN by (simp add: for_loop.simps [of es N i])
  qed
qed

section \<open>Fallbacks, the response object and the handler\<close>

lemma or_else_nonempty: "b \<noteq> [] \<Longrightarrow> or_else a b \<noteq> []"
  by (cases a) (auto simp: or_else_def)

lemma or_else_Some: "m \<noteq> [] \<Longrightarrow> or_else (Some m) b = m"
  by (simp add: or_else_def)

lemma or_else_None: "or_else None b = b"
  by (simp add: or_else_def)

lemma msg_missing_key_nonempty: "msg_missing_key \<noteq> []"
  by (simp add: msg_missing_key_def)

lemma msg_cannot_get_nonempty: "msg_cannot_get \<noteq> []"
  by (simp add: msg_cannot_get_def)

lemma cannot_read_message: "error_message (cannot_read p) \<noteq> []"
  by (simp add: cannot_read_def)

lemma cannot_read_response: "error_response (cannot_read p) = None"
  by (simp add: cannot_read_def)

lemma fallback_upstream_nonempty: "fallback_upstream \<noteq> []"
  by (simp add: fallback_upstream_def msg_cannot_get_def)

lemma fallback_server_nonempty: "fallback_server \<noteq> []"
  by (simp add: fallback_server_def msg_cannot_get_def)

lemma sent_json_status: "sent (res_json b (res_status c fresh_res)) = [(c, b)]"
  by (simp add: res_json_def res_status_def fresh_res_def)

lemma sent_json_fresh: "sent (res_json b fresh_res) = [(200, b)]"
  by (simp add: res_json_def fresh_res_def)

lemma handler_success:
  "getWeatherData e (city_lookup e k) = (reqs, Inr w) \<Longrightarrow>
   sent (res (getCityWeather e k fresh_res)) = [(200, SuccessBody True w)]"
  by (simp add: getCityWeather_def sent_json_fresh)

lemma handler_upstream:
  "getWeatherData e (city_lookup e k) = (reqs, Inl err) \<Longrightarrow> error_response err = Some r \<Longrightarrow>
   data r = ObjectBody body \<Longrightarrow>
   sent (res (getCityWeather e k fresh_res)) =
     [(status r, UpstreamErrorBody tag_cwa_api_error (or_else (message body) fallback_upstream) (data r))]"
  by (simp add: getCityWeather_def Let_def sent_json_status)

lemma handler_null_body:
  "getWeatherData e (city_lookup e k) = (reqs, Inl err) \<Longrightarrow> error_response err = Some r \<Longrightarrow>
   data r = NullBody \<Longrightarrow>
   sent (res (getCityWeather e k fresh_res)) = []
   \<and> uncaught (getCityWeather e k fresh_res) = Some (cannot_read_null ''message'')"
  by (simp add: getCityWeather_def Let_def res_status_def fresh_res_def)

lemma handler_server:
  "getWeatherData e (city_lookup e k) = (reqs, Inl err) \<Longrightarrow> error_response err = None \<Longrightarrow>
   sent (res (getCityWeather e k fresh_res)) =
     [(500, ServerErrorBody tag_server_error (or_else (Some (error_message err)) fallback_server))]"
  by (simp add: getCityWeather_def Let_def sent_json_status)

lemma handler_requests:
  "requests (getCityWeather e k res0) = fst (getWeatherData e (city_lookup e k))"
  by (auto simp: getCityWeather_def Let_def split: prod.splits sum.splits option.splits upstream_body.splits)

lemma getWeatherData_no_key:
  "\<not> truthy (CWA_API_KEY e) \<Longrightarrow> getWeatherData e c = ([], Inl (Error msg_missing_key))"
  by (simp add: getWeatherData_def)

lemma getWeatherData_rejected:
  "truthy (CWA_API_KEY e) \<Longrightarrow>
   axios_get e (forecast_request (the (CWA_API_KEY e)) c) = Inl (m, r) \<Longrightarrow>
   getWeatherData e c = ([forecast_request (the (CWA_API_KEY e)) c], Inl (AxiosError m r))"
  by (simp add: getWeatherData_def Let_def)

lemma getWeatherData_response:
  "truthy (CWA_API_KEY e) \<Longrightarrow>
   axios_get e (forecast_request (the (CWA_API_KEY e)) c) = Inr response \<Longrightarrow>
   getWeatherData e c = ([forecast_request (the (CWA_API_KEY e)) c], normalize c response)"
  by (simp add: getWeatherData_def Let_def)

lemma handler_normalize_fails:
  assumes "truthy (CWA_API_KEY e)"
    and "axios_get e (forecast_request (the (CWA_API_KEY e)) (city_lookup e k)) = Inr response"
    and "normalize (city_lookup e k) response = Inl err"
    and "error_response err = None" and "error_message err \<noteq> []"
  shows "sent (res (getCityWeather e k fresh_res)) =
           [(500, ServerErrorBody tag_server_error (error_message err))]"
  using handler_server [of e k _ err] getWeatherData_response [OF assms(1,2)] assms(3,4,5)
  by (simp add: or_else_Some)

text \<open>
  A failure whose error carries no response, or a response with an object body, is answered
  by exactly one response.
\<close>

lemma handler_answers_once:
  assumes "getWeatherData e (city_lookup e k) = (reqs, Inl err)"
    and "\<forall>r. error_response err = Some r \<longrightarrow> data r \<noteq> NullBody"
  shows "length (sent (res (getCityWeather e k fresh_res))) = 1
         \<and> uncaught (getCityWeather e k fresh_res) = None"
proof (cases "error_response err")
  case None
  then show ?thesis using assms(1) by (simp add: getCityWeather_def Let_def sent_json_status)
next
  case (Some r)
  then obtain body where "data r = ObjectBody body" using assms(2) by (cases "data r") auto
  then show ?thesis using assms(1) Some by (simp add: getCityWeather_def Let_def sent_json_status)
qed

section \<open>Evaluating the model\<close>

lemmas example_defs = entry_def response_with_def env_with_def loc_new_taipei_def
  data_new_taipei_def loc_no_elements_def native_def node_prototype_def env_no_key_def
  env_rejecting_def body_maintenance_def body_no_message_def env_maintenance_def
  env_no_message_def env_null_body_def env_network_error_def

lemmas run_defs = getCityWeather_def getWeatherData_def normalize_def interval_def
  new_forecast_def callback_def switch_def forecast_request_def city_lookup_def CITY_MAP_def
  res_json_def res_status_def fresh_res_def or_else_def cannot_read_def cannot_read_null_def

lemmas more_example_defs = el_def six_elements_def loc_six_def data_six_def loc_empty_text_def
  data_empty_text_def loc_short_extra_def loc_short_pop_def loc_long_pop_def data_long_pop_def
  loc_unknown_def loc_unknown_short_def data_sunny_def data_rain_def loc_two_wx_def

lemmas aux_defs = with_elements_def with_locations_def cut_to_def recognized_def populated_def aligned_def

section \<open>The first location record\<close>

lemma normalize_no_location:
  "location (records (data response)) = [] \<Longrightarrow>
   normalize cityName response = Inl (Error (msg_cannot_get @ to_string cityName @ msg_weather_data))"
  by (simp add: normalize_def)

lemma normalize_no_elements:
  "location (records (data response)) = loc # locs \<Longrightarrow> weatherElement loc = [] \<Longrightarrow>
   normalize cityName response = Inl (cannot_read ''time'')"
  by (simp add: normalize_def)

lemma normalize_elements:
  "location (records (data response)) = loc # locs \<Longrightarrow> weatherElement loc = first # rest \<Longrightarrow>
   normalize cityName response =
     (case for_loop (first # rest) (length (time first)) 0 [] of
        Inl e \<Rightarrow> Inl e
      | Inr fs \<Rightarrow> Inr \<lparr>city = locationName loc,
                         updateTime = datasetDescription (records (data response)),
                         forecasts = fs\<rparr>)"
  by (simp add: normalize_def)

lemma normalize_first_location:
  "location (records (data response)) = loc # locs \<Longrightarrow>
   normalize cityName response = normalize otherName (with_locations [loc] response)"
  by (simp add: normalize_def with_locations_def Let_def split: option.splits sum.splits)

lemma normalize_city:
  "location (records (data response)) = loc # locs \<Longrightarrow> normalize cityName response = Inr w \<Longrightarrow>
   city w = locationName loc"
  by (auto simp: normalize_def Let_def split: option.splits sum.splits)

section \<open>Short and long time series\<close>

lemma interval_errors:
  "j < length (time first) \<Longrightarrow> interval (first # rest) j = Inl err \<Longrightarrow> err = cannot_read ''parameter''"
  by (simp add: interval_eq split: if_splits)

lemma for_loop_short:
  assumes "e \<in> set (first # rest)" and "length (time e) < length (time first)"
  shows "for_loop (first # rest) (length (time first)) 0 [] = Inl (cannot_read ''parameter'')"
proof (rule for_loop_fail [where k = "length (time e)"])
  show "0 \<le> length (time e)" by simp
  show "length (time e) < length (time first)" by (fact assms(2))
  show "interval (first # rest) (length (time e)) = Inl (cannot_read ''parameter'')"
    using assms by (auto simp: interval_eq)
  show "err' = cannot_read ''parameter''"
    if "j < length (time first)" "interval (first # rest) j = Inl err'" for j err'
    using that by (rule interval_errors)
qed

lemma interval_all_long:
  assumes "\<forall>e \<in> set (first # rest). j < length (time e)"
  shows "interval (first # rest) j = Inr (fold (assign j) (first # rest) (blank (time first ! j)))"
proof -
  have "j < length (time first)" using assms by simp
  then show ?thesis by (simp only: interval_eq if_P [OF assms])
qed

lemma for_loop_all_long:
  assumes "\<forall>e \<in> set rest. length (time first) \<le> length (time e)"
  shows "for_loop (first # rest) (length (time first)) 0 [] =
           Inr (map (\<lambda>i. fold (assign i) (first # rest) (blank (time first ! i))) [0..<length (time first)])"
proof -
  have "interval (first # rest) j = Inr (fold (assign j) (first # rest) (blank (time first ! j)))"
    if "j < length (time first)" for j
    using that assms by (subst interval_eq) (auto simp del: fold_simps)
  then show ?thesis
    using for_loop_ok [of 0 "length (time first)" "first # rest"
                          "\<lambda>i. fold (assign i) (first # rest) (blank (time first ! i))" "[]"]
    by simp
qed

lemma at_index_take: "j < n \<Longrightarrow> at_index (take n xs) j = at_index xs j"
  by (simp add: at_index_eq)

lemma callback_cut_to:
  "j < n \<Longrightarrow> callback j f (cut_to n e) = callback j f e"
  by (simp add: callback_def cut_to_def at_index_take split: option.splits)

lemma forEach_cut_to:
  "j < n \<Longrightarrow> forEach (map (cut_to n) es) j f = forEach es j f"
  by (induction es arbitrary: f) (simp_all add: callback_cut_to split: sum.splits)

lemma new_forecast_cut_to:
  "j < n \<Longrightarrow> new_forecast (map (cut_to n) es) j = new_forecast es j"
  by (cases es) (simp_all add: new_forecast_def cut_to_def at_index_take)

lemma interval_cut_to:
  "j < n \<Longrightarrow> interval (map (cut_to n) es) j = interval es j"
  by (simp add: interval_def new_forecast_cut_to forEach_cut_to split: sum.splits)

lemma for_loop_cut_to:
  "for_loop (map (cut_to n) es) n i acc = for_loop es n i acc"
  by (rule for_loop_cong) (simp add: interval_cut_to)


lemma normalize_with_elements:
  "location (records (data response)) = loc # locs \<Longrightarrow>
   normalize cityName (with_elements (first # rest) response) =
     (case for_loop (first # rest) (length (time first)) 0 [] of
        Inl e \<Rightarrow> Inl e
      | Inr fs \<Rightarrow> Inr \<lparr>city = locationName loc,
                         updateTime = datasetDescription (records (data response)),
                         forecasts = fs\<rparr>)"
  by (simp add: normalize_def with_elements_def Let_def split: sum.splits)

lemma normalize_with_no_elements:
  "location (records (data response)) = loc # locs \<Longrightarrow>
   normalize cityName (with_elements [] response) = Inl (cannot_read ''time'')"
  by (simp add: normalize_def with_elements_def)

section \<open>Unrecognized elements\<close>

lemma switch_unrecognized: "\<not> recognized name \<Longrightarrow> switch name value f = f"
  by (auto simp: switch_def recognized_def)

lemma callback_unrecognized:
  "\<not> recognized (elementName element) \<Longrightarrow> i < length (time element) \<Longrightarrow>
   callback i f element = Inr f"
  by (simp add: callback_eq assign_def switch_unrecognized)

lemma forEach_filter:
  "(\<forall>element \<in> set es. \<not> recognized (elementName element) \<longrightarrow> i < length (time element)) \<Longrightarrow>
   forEach (filter (\<lambda>element. recognized (elementName element)) es) i f = forEach es i f"
  by (induction es arbitrary: f) (simp_all add: callback_unrecognized split: sum.splits)

lemma interval_filter:
  assumes "recognized (elementName first)"
    and "\<forall>element \<in> set rest. \<not> recognized (elementName element) \<longrightarrow> i < length (time element)"
  shows "interval (filter (\<lambda>element. recognized (elementName element)) (first # rest)) i =
         interval (first # rest) i"
proof -
  have a: "forEach (filter (\<lambda>element. recognized (elementName element)) (first # rest)) i f =
        forEach (first # rest) i f" for f
    by (rule forEach_filter) (use assms in simp)
  have b: "new_forecast (filter (\<lambda>element. recognized (elementName element)) (first # rest)) i =
                 new_forecast (first # rest) i"
    using assms(1) by (simp add: new_forecast_eq)
  show ?thesis unfolding interval_def by (simp only: a b cong: sum.case_cong)
qed

section \<open>The fields of a forecast\<close>

lemma assign_times:
  "fc_startTime (assign i e f) = fc_startTime f" "fc_endTime (assign i e f) = fc_endTime f"
  by (simp_all add: assign_def switch_def)

lemma fold_assign_times:
  "fc_startTime (fold (assign i) es f) = fc_startTime f \<and> fc_endTime (fold (assign i) es f) = fc_endTime f"
  by (induction es arbitrary: f) (simp_all add: assign_times)

lemma fold_field_nonempty:
  assumes step: "\<And>e f. get (assign i e f) = (if elementName e = code then val e else get f)"
    and vals: "\<forall>e \<in> set es. elementName e = code \<longrightarrow> val e \<noteq> []"
    and some: "get f \<noteq> [] \<or> code \<in> elementName ` set es"
  shows "get (fold (assign i) es f) \<noteq> []"
  using vals some
proof (induction es arbitrary: f)
  case Nil
  then show ?case by simp
next
  case (Cons e es)
  have "get (assign i e f) \<noteq> [] \<or> code \<in> elementName ` set es"
    using Cons.prems by (auto simp: step)
  moreover have "\<forall>e \<in> set es. elementName e = code \<longrightarrow> val e \<noteq> []"
    using Cons.prems(1) by simp
  ultimately have "get (fold (assign i) es (assign i e f)) \<noteq> []"
    by (rule Cons.IH [rotated])
  then show ?case by simp
qed

lemma weather_assign:
  "weather (assign i e f) = (if elementName e = ''Wx'' then parameterName (parameter (time e ! i)) else weather f)"
  by (simp add: assign_def switch_def)

lemma rain_assign:
  "rain (assign i e f) = (if elementName e = ''PoP'' then parameterName (parameter (time e ! i)) @ ''%'' else rain f)"
  by (simp add: assign_def switch_def)

lemma minTemp_assign:
  "minTemp (assign i e f) = (if elementName e = ''MinT'' then parameterName (parameter (time e ! i)) @ degrees_celsius else minTemp f)"
  by (simp add: assign_def switch_def)

lemma maxTemp_assign:
  "maxTemp (assign i e f) = (if elementName e = ''MaxT'' then parameterName (parameter (time e ! i)) @ degrees_celsius else maxTemp f)"
  by (simp add: assign_def switch_def)

lemma comfort_assign:
  "comfort (assign i e f) = (if elementName e = ''CI'' then parameterName (parameter (time e ! i)) else comfort f)"
  by (simp add: assign_def switch_def)

lemma windSpeed_assign:
  "windSpeed (assign i e f) = (if elementName e = ''WS'' then parameterName (parameter (time e ! i)) else windSpeed f)"
  by (simp add: assign_def switch_def)

lemma fold_populated:
  assumes codes: "set [''Wx'', ''PoP'', ''MinT'', ''MaxT'', ''CI'', ''WS''] \<subseteq> elementName ` set es"
    and texts: "\<forall>e \<in> set es. elementName e \<in> {''Wx'', ''CI'', ''WS''} \<longrightarrow>
                  parameterName (parameter (time e ! i)) \<noteq> []"
  shows "populated (fold (assign i) es f)"
proof -
  have "weather (fold (assign i) es f) \<noteq> []"
    by (rule fold_field_nonempty [where code = "''Wx''", OF weather_assign]) (use codes texts in auto)
  moreover have "rain (fold (assign i) es f) \<noteq> []"
    by (rule fold_field_nonempty [where code = "''PoP''", OF rain_assign]) (use codes in auto)
  moreover have "minTemp (fold (assign i) es f) \<noteq> []"
    by (rule fold_field_nonempty [where code = "''MinT''", OF minTemp_assign])
       (use codes in \<open>auto simp: degrees_celsius_def\<close>)
  moreover have "maxTemp (fold (assign i) es f) \<noteq> []"
    by (rule fold_field_nonempty [where code = "''MaxT''", OF maxTemp_assign])
       (use codes in \<open>auto simp: degrees_celsius_def\<close>)
  moreover have "comfort (fold (assign i) es f) \<noteq> []"
    by (rule fold_field_nonempty [where code = "''CI''", OF comfort_assign]) (use codes texts in auto)
  moreover have "windSpeed (fold (assign i) es f) \<noteq> []"
    by (rule fold_field_nonempty [where code = "''WS''", OF windSpeed_assign]) (use codes texts in auto)
  ultimately show ?thesis by (simp add: populated_def)
qed

section \<open>The order of the elements\<close>

lemma switch_code:
  "switch ''Wx'' v f = f\<lparr>weather := parameterName v\<rparr>"
  "switch ''PoP'' v f = f\<lparr>rain := parameterName v @ ''%''\<rparr>"
  "switch ''MinT'' v f = f\<lparr>minTemp := parameterName v @ degrees_celsius\<rparr>"
  "switch ''MaxT'' v f = f\<lparr>maxTemp := parameterName v @ degrees_celsius\<rparr>"
  "switch ''CI'' v f = f\<lparr>comfort := parameterName v\<rparr>"
  "switch ''WS'' v f = f\<lparr>windSpeed := parameterName v\<rparr>"
  by (simp_all add: switch_def)

lemma recognized_cases:
  "recognized n \<Longrightarrow> n = ''Wx'' \<or> n = ''PoP'' \<or> n = ''MinT'' \<or> n = ''MaxT'' \<or> n = ''CI'' \<or> n = ''WS''"
  by (simp add: recognized_def)

lemma switch_commute:
  assumes "n \<noteq> m"
  shows "switch n v (switch m w f) = switch m w (switch n v f)"
proof (cases "recognized n \<and> recognized m")
  case False
  then show ?thesis by (auto simp: switch_unrecognized)
next
  case True
  then have "recognized n" and "recognized m" by simp_all
  from recognized_cases [OF this(1)] recognized_cases [OF this(2)] assms show ?thesis
    apply -
    apply (elim disjE)
    apply (simp_all add: switch_code)
    done
qed


lemma assign_unrecognized: "\<not> recognized (elementName x) \<Longrightarrow> assign i x f = f"
  by (simp add: assign_def switch_unrecognized)

lemma assign_commute_names:
  "elementName x \<noteq> elementName y \<Longrightarrow> assign i x (assign i y f) = assign i y (assign i x f)"
  by (simp add: assign_def switch_commute)

lemma same_name_same_element:
  assumes "distinct (filter recognized (map elementName es))"
    and "x \<in> set es" and "y \<in> set es"
    and "elementName x = elementName y" and "recognized (elementName x)"
  shows "x = y"
proof -
  let ?kept = "filter (recognized \<circ> elementName) es"
  have "distinct (map elementName ?kept)" using assms(1) by (simp add: filter_map)
  then have "inj_on elementName (set ?kept)" by (simp add: distinct_map)
  moreover have "x \<in> set ?kept" "y \<in> set ?kept" using assms by simp_all
  ultimately show ?thesis using assms(4) by (simp add: inj_on_def)
qed

lemma assign_commute:
  assumes "distinct (filter recognized (map elementName es))" and "x \<in> set es" and "y \<in> set es"
  shows "assign i x (assign i y f) = assign i y (assign i x f)"
proof (cases "elementName x = elementName y")
  case False
  then show ?thesis by (rule assign_commute_names)
next
  case True
  show ?thesis
  proof (cases "recognized (elementName x)")
    case True
    have "x = y"
      using assms(1,2,3) \<open>elementName x = elementName y\<close> True by (rule same_name_same_element)
    then show ?thesis by simp
  next
    case False
    then show ?thesis using True by (simp add: assign_unrecognized)
  qed
qed

lemma fold_assign_permuted:
  assumes "distinct (filter recognized (map elementName es))" and "mset es' = mset es"
  shows "fold (assign i) es' f = fold (assign i) es f"
proof -
  have "fold (assign i) es f = fold (assign i) es' f"
  proof (rule fold_permuted_eq [where P = "\<lambda>f. True"])
    show "mset es = mset es'" using assms(2) by simp
    show "assign i x (assign i y z) = assign i y (assign i x z)"
      if "x \<in> set es" "y \<in> set es" for x y z
      using assms(1) that by (rule assign_commute)
  qed (rule TrueI)+
  then show ?thesis by simp
qed

lemma aligned_iff:
  "aligned es \<longleftrightarrow>
     (\<forall>e \<in> set es. \<forall>e' \<in> set es. map startTime (time e) = map startTime (time e')
                                   \<and> map endTime (time e) = map endTime (time e'))"
  by (simp add: aligned_def list_all_iff)

lemma aligned_length:
  assumes "aligned es" and "e \<in> set es" and "e' \<in> set es"
  shows "length (time e) = length (time e')"
proof -
  have "map startTime (time e) = map startTime (time e')"
    using assms unfolding aligned_iff by blast
  then have "length (map startTime (time e)) = length (map startTime (time e'))"
    by (simp only:)
  then show ?thesis by simp
qed

lemma aligned_blank:
  assumes "aligned es" and "e \<in> set es" and "e' \<in> set es" and "i < length (time e)"
  shows "blank (time e ! i) = blank (time e' ! i)"
proof -
  have len: "i < length (time e')" using aligned_length [OF assms(1,2,3)] assms(4) by simp
  have "map startTime (time e) = map startTime (time e')"
       "map endTime (time e) = map endTime (time e')"
    using assms(1,2,3) unfolding aligned_iff by blast+
  then have "map startTime (time e) ! i = map startTime (time e') ! i"
       "map endTime (time e) ! i = map endTime (time e') ! i"
    by (simp_all only:)
  then show ?thesis using assms(4) len by (simp add: blank_def)
qed


section \<open>C1: A response without location records\<close>

text \<open>
  Claim C1, as amended. When the location collection of the upstream response is empty,
  \<^verbatim>\<open>getWeatherData\<close> fails with an \<^verbatim>\<open>Error\<close> whose message is the template of line 54
  around the requested locale, and the handler answers 500 with that message. When the
  collection is not empty, its first record is used and nothing else: the result is the one
  for the response holding that record alone, whatever name was requested, and a successful
  result carries the name of the first record as its city.
\<close>

theorem C1_first_location_missing:
  "(location (records (data response)) = [] \<longrightarrow>
      normalize cityName response =
        Inl (Error (msg_cannot_get @ to_string cityName @ msg_weather_data))
      \<and> (truthy (CWA_API_KEY e)
           \<and> axios_get e (forecast_request (the (CWA_API_KEY e)) (city_lookup e cityKey)) = Inr response
         \<longrightarrow> sent (res (getCityWeather e cityKey fresh_res)) =
               [(500, ServerErrorBody tag_server_error
                        (msg_cannot_get @ to_string (city_lookup e cityKey) @ msg_weather_data))]))
   \<and> (location (records (data response)) = loc # locs \<longrightarrow>
        normalize cityName response = normalize otherName (with_locations [loc] response)
        \<and> (\<forall>w. normalize cityName response = Inr w \<longrightarrow> city w = locationName loc))"
proof -
  have fails: "normalize c response = Inl (Error (msg_cannot_get @ to_string c @ msg_weather_data))"
    if "location (records (data response)) = []" for c
    using that by (rule normalize_no_location)
  have sends: "sent (res (getCityWeather e cityKey fresh_res)) =
          [(500, ServerErrorBody tag_server_error
                   (msg_cannot_get @ to_string (city_lookup e cityKey) @ msg_weather_data))]"
    if "location (records (data response)) = []" and "truthy (CWA_API_KEY e)"
      and "axios_get e (forecast_request (the (CWA_API_KEY e)) (city_lookup e cityKey)) = Inr response"
    using handler_normalize_fails [OF that(2,3) fails [OF that(1)]]
    by (simp add: msg_cannot_get_nonempty)
  have first: "normalize cityName response = normalize otherName (with_locations [loc] response)"
    if "location (records (data response)) = loc # locs"
    using that by (rule normalize_first_location)
  have name: "city w = locationName loc"
    if "location (records (data response)) = loc # locs" "normalize cityName response = Inr w" for w
    using that by (rule normalize_city)
  show ?thesis using fails sends first name by blast
qed

text \<open>
  An empty collection requested for Taipei; and a collection of two records, Taipei first and
  New Taipei second, requested for New Taipei: the result is that of the first record.
\<close>

theorem C1_first_location_missing_witness:
  "normalize (Str Taipei) (response_with []) =
     Inl (Error (msg_cannot_get @ Taipei @ msg_weather_data))
   \<and> sent (res (getCityWeather (env_with (response_with [])) ''taipei'' fresh_res)) =
       [(500, ServerErrorBody tag_server_error (msg_cannot_get @ Taipei @ msg_weather_data))]
   \<and> normalize (Str NewTaipei) (response_with [loc_six, loc_new_taipei]) =
       normalize (Str Kaohsiung) (with_locations [loc_six] (response_with [loc_six, loc_new_taipei]))
   \<and> normalize (Str NewTaipei) (response_with [loc_six, loc_new_taipei]) = Inr data_six
   \<and> city data_six = locationName loc_six"
proof -
  have empty: "location (records (data (response_with []))) = []"
    by (simp add: response_with_def)
  have two: "location (records (data (response_with [loc_six, loc_new_taipei]))) =
               loc_six # [loc_new_taipei]"
    by (simp add: response_with_def)
  have key: "truthy (CWA_API_KEY (env_with (response_with [])))"
    by (simp add: env_with_def)
  have get: "axios_get (env_with (response_with []))
               (forecast_request (the (CWA_API_KEY (env_with (response_with []))))
                  (city_lookup (env_with (response_with [])) ''taipei'')) = Inr (response_with [])"
    by (simp add: env_with_def)
  have name: "city_lookup (env_with (response_with [])) ''taipei'' = Str Taipei"
    by (simp add: city_lookup_def CITY_MAP_def)
  have out: "normalize (Str NewTaipei) (response_with [loc_six, loc_new_taipei]) = Inr data_six"
    by (simp add: example_defs more_example_defs run_defs for_loop.simps)
  show ?thesis
    using C1_first_location_missing
            [of "response_with []" "Str Taipei" "env_with (response_with [])" "''taipei''"]
          C1_first_location_missing
            [of "response_with [loc_six, loc_new_taipei]" "Str NewTaipei" _ _ loc_six
                "[loc_new_taipei]" "Str Kaohsiung"]
          empty two key get name out
    by simp
qed

text \<open>
  Claim C1 as stated fails: the only record of the response is New Taipei, the request is for
  Taipei, and the handler answers 200 with the data of New Taipei.
\<close>

theorem C1_counterexample:
  "location (records (data (response_with [loc_new_taipei]))) = [loc_new_taipei]
   \<and> locationName loc_new_taipei \<noteq> Taipei
   \<and> city_lookup (env_with (response_with [loc_new_taipei])) ''taipei'' = Str Taipei
   \<and> normalize (Str Taipei) (response_with [loc_new_taipei]) = Inr data_new_taipei
   \<and> sent (res (getCityWeather (env_with (response_with [loc_new_taipei])) ''taipei'' fresh_res)) =
       [(200, SuccessBody True data_new_taipei)]"
  by (simp add: example_defs run_defs for_loop.simps NewTaipei_def Taipei_def)

section \<open>C2: The error mapping is total\<close>

text \<open>
  Claim C2 says that every failure raised in a city handler is answered by exactly one
  response. The handler breaks it when the upstream answers with an error status and the JSON
  body \<^verbatim>\<open>null\<close>: \<^verbatim>\<open>axios.get\<close> rejects with a response whose \<^verbatim>\<open>data\<close> is \<^verbatim>\<open>null\<close>, line 130
  reads \<^verbatim>\<open>message\<close> of it inside the \<^verbatim>\<open>catch\<close> block, and the \<^verbatim>\<open>TypeError\<close> leaves the
  handler before \<^verbatim>\<open>json\<close> is called. The handler has sent no response.
\<close>

theorem C2_null_body_no_response:
  "getWeatherData env_null_body (city_lookup env_null_body ''taipei'') =
     ([forecast_request ''key'' (Str Taipei)],
      Inl (AxiosError ''Request failed with status code 503''
             (Some \<lparr>status = 503, data = NullBody\<rparr>)))
   \<and> sent (res (getCityWeather env_null_body ''taipei'' fresh_res)) = []
   \<and> uncaught (getCityWeather env_null_body ''taipei'' fresh_res) =
       Some (cannot_read_null ''message'')"
  by (simp add: example_defs run_defs)

section \<open>C3: One forecast per interval\<close>

text \<open>
  Claim C3, as amended. Let \<open>N\<close> be the length of the first element's time series. If all six
  recognized codes occur among the elements, every element has at least \<open>N\<close> entries, and the
  entries of the \<^verbatim>\<open>Wx\<close>, \<^verbatim>\<open>CI\<close> and \<^verbatim>\<open>WS\<close> elements carry non-empty text, then the
  normalizer returns exactly \<open>N\<close> forecasts, the \<open>i\<close>-th with the start and end time of the first
  element's \<open>i\<close>-th entry and with all six semantic fields non-empty.
\<close>

theorem C3_interval_count:
  assumes "location (records (data response)) = loc # locs"
    and "weatherElement loc = first # rest"
    and "set [''Wx'', ''PoP'', ''MinT'', ''MaxT'', ''CI'', ''WS''] \<subseteq> elementName ` set (first # rest)"
    and "\<forall>e \<in> set rest. length (time first) \<le> length (time e)"
    and "\<forall>e \<in> set (first # rest). elementName e \<in> {''Wx'', ''CI'', ''WS''} \<longrightarrow>
           (\<forall>i < length (time first). parameterName (parameter (time e ! i)) \<noteq> [])"
  shows "\<exists>fs. normalize cityName response =
                Inr \<lparr>city = locationName loc,
                     updateTime = datasetDescription (records (data response)),
                     forecasts = fs\<rparr>
            \<and> length fs = length (time first)
            \<and> (\<forall>i < length (time first).
                  fc_startTime (fs ! i) = startTime (time first ! i)
                  \<and> fc_endTime (fs ! i) = endTime (time first ! i)
                  \<and> populated (fs ! i))"
proof -
  let ?g = "\<lambda>i. fold (assign i) (first # rest) (blank (time first ! i))"
  let ?fs = "map ?g [0..<length (time first)]"
  have "normalize cityName response =
          Inr \<lparr>city = locationName loc,
               updateTime = datasetDescription (records (data response)),
               forecasts = ?fs\<rparr>"
    by (simp only: normalize_elements [OF assms(1,2)] for_loop_all_long [OF assms(4)] sum.case)
  moreover have "length ?fs = length (time first)" by simp
  moreover have "fc_startTime (?fs ! i) = startTime (time first ! i)
                 \<and> fc_endTime (?fs ! i) = endTime (time first ! i)
                 \<and> populated (?fs ! i)" if "i < length (time first)" for i
  proof -
    have "?fs ! i = ?g i" using that by simp
    moreover have "populated (?g i)"
      by (rule fold_populated [OF assms(3)]) (use assms(5) that in blast)
    moreover have "fc_startTime (?g i) = startTime (time first ! i)
                   \<and> fc_endTime (?g i) = endTime (time first ! i)"
      by (simp only: fold_assign_times) (simp add: blank_def)
    ultimately show ?thesis by simp
  qed
  ultimately show ?thesis by blast
qed

text \<open>
  Six elements of one interval each.
\<close>

theorem C3_interval_count_witness:
  "normalize (Str Taipei) (response_with [loc_six]) = Inr data_six
   \<and> length (forecasts data_six) = length (time (el ''Wx'' ''sunny''))
   \<and> populated (forecasts data_six ! 0)
   \<and> fc_startTime (forecasts data_six ! 0) = startTime (time (el ''Wx'' ''sunny'') ! 0)
   \<and> fc_endTime (forecasts data_six ! 0) = endTime (time (el ''Wx'' ''sunny'') ! 0)"
proof -
  let ?rest = "[el ''PoP'' ''20'', el ''MinT'' ''18'', el ''MaxT'' ''25'',
                el ''CI'' ''comfortable'', el ''WS'' ''light'']"
  have l: "location (records (data (response_with [loc_six]))) = loc_six # []"
    by (simp add: response_with_def)
  have e: "weatherElement loc_six = el ''Wx'' ''sunny'' # ?rest"
    by (simp add: loc_six_def six_elements_def)
  have codes: "set [''Wx'', ''PoP'', ''MinT'', ''MaxT'', ''CI'', ''WS'']
                 \<subseteq> elementName ` set (el ''Wx'' ''sunny'' # ?rest)"
    by (simp add: el_def)
  have long: "\<forall>e \<in> set ?rest. length (time (el ''Wx'' ''sunny'')) \<le> length (time e)"
    by (simp add: el_def)
  have texts: "\<forall>e \<in> set (el ''Wx'' ''sunny'' # ?rest). elementName e \<in> {''Wx'', ''CI'', ''WS''} \<longrightarrow>
                 (\<forall>i < length (time (el ''Wx'' ''sunny'')). parameterName (parameter (time e ! i)) \<noteq> [])"
    by (simp add: el_def entry_def)
  have n: "length (time (el ''Wx'' ''sunny'')) = 1" by (simp add: el_def)
  from C3_interval_count [OF l e codes long texts, of "Str Taipei"]
  obtain fs where fs: "normalize (Str Taipei) (response_with [loc_six]) =
        Inr \<lparr>city = locationName loc_six,
             updateTime = datasetDescription (records (data (response_with [loc_six]))),
             forecasts = fs\<rparr>"
     "length fs = length (time (el ''Wx'' ''sunny''))"
     "\<forall>i < length (time (el ''Wx'' ''sunny'')).
         fc_startTime (fs ! i) = startTime (time (el ''Wx'' ''sunny'') ! i)
         \<and> fc_endTime (fs ! i) = endTime (time (el ''Wx'' ''sunny'') ! i)
         \<and> populated (fs ! i)"
    by blast
  have out: "normalize (Str Taipei) (response_with [loc_six]) = Inr data_six"
    by (simp add: example_defs more_example_defs run_defs for_loop.simps)
  then have "data_six = \<lparr>city = locationName loc_six,
             updateTime = datasetDescription (records (data (response_with [loc_six]))),
             forecasts = fs\<rparr>"
    using fs(1) by simp
  then have "forecasts data_six = forecasts \<lparr>city = locationName loc_six,
             updateTime = datasetDescription (records (data (response_with [loc_six]))),
             forecasts = fs\<rparr>"
    by (rule arg_cong)
  then have "forecasts data_six = fs" by simp
  then show ?thesis using fs(2,3) out n by simp
qed

text \<open>
  Claim C3 as stated fails twice. With all six codes present at the only index and an empty
  \<^verbatim>\<open>Wx\<close> text, the \<^verbatim>\<open>weather\<close> field of the forecast is empty. With all six codes present at
  the only index and a seventh element that has no entry, the normalizer fails.
\<close>

theorem C3_counterexample:
  "map elementName (weatherElement loc_empty_text) = [''Wx'', ''PoP'', ''MinT'', ''MaxT'', ''CI'', ''WS'']
   \<and> map length (map time (weatherElement loc_empty_text)) = [1, 1, 1, 1, 1, 1]
   \<and> normalize (Str Taipei) (response_with [loc_empty_text]) = Inr data_empty_text
   \<and> weather (hd (forecasts data_empty_text)) = []
   \<and> map elementName (weatherElement loc_short_extra) =
       [''Wx'', ''PoP'', ''MinT'', ''MaxT'', ''CI'', ''WS'', ''UVI'']
   \<and> map length (map time (weatherElement loc_short_extra)) = [1, 1, 1, 1, 1, 1, 0]
   \<and> normalize (Str Taipei) (response_with [loc_short_extra]) = Inl (cannot_read ''parameter'')"
  by (simp add: example_defs more_example_defs run_defs for_loop.simps)

section \<open>C4: Upstream errors are passed through\<close>

text \<open>
  Claim C4. When \<^verbatim>\<open>axios.get\<close> rejects with a response of status \<open>s\<close> whose body is the object
  \<open>body\<close>: for status 503 and a body whose message is \<^verbatim>\<open>maintenance\<close> the handler sends
  status 503 with the upstream-error tag, the message \<^verbatim>\<open>maintenance\<close> and the raw body as
  details; for a body without a message it sends the upstream status with the fallback
  message and the raw body.
\<close>

theorem C4_upstream_error_passthrough:
  assumes "truthy (CWA_API_KEY e)"
    and "axios_get e (forecast_request (the (CWA_API_KEY e)) (city_lookup e cityKey)) =
           Inl (m, Some \<lparr>status = s, data = ObjectBody body\<rparr>)"
  shows "(s = 503 \<and> message body = Some ''maintenance'' \<longrightarrow>
            sent (res (getCityWeather e cityKey fresh_res)) =
              [(503, UpstreamErrorBody tag_cwa_api_error ''maintenance'' (ObjectBody body))])
       \<and> (message body = None \<longrightarrow>
            sent (res (getCityWeather e cityKey fresh_res)) =
              [(s, UpstreamErrorBody tag_cwa_api_error fallback_upstream (ObjectBody body))])"
  using handler_upstream [OF getWeatherData_rejected [OF assms],
                          of "\<lparr>status = s, data = ObjectBody body\<rparr>" body]
  by (simp add: or_else_Some or_else_None)

text \<open>
  The body \<^verbatim>\<open>{message: "maintenance"}\<close> and a body without a message, both with status 503.
\<close>

theorem C4_upstream_error_passthrough_witness:
  "sent (res (getCityWeather env_maintenance ''taipei'' fresh_res)) =
     [(503, UpstreamErrorBody tag_cwa_api_error ''maintenance''
              (ObjectBody \<lparr>message = Some ''maintenance'', others = []\<rparr>))]
   \<and> sent (res (getCityWeather env_no_message ''taipei'' fresh_res)) =
     [(503, UpstreamErrorBody tag_cwa_api_error fallback_upstream
              (ObjectBody \<lparr>message = None, others = [(''code'', ''E1'')]\<rparr>))]"
proof -
  have k1: "truthy (CWA_API_KEY env_maintenance)"
    by (simp add: env_maintenance_def env_rejecting_def)
  have a1: "axios_get env_maintenance
              (forecast_request (the (CWA_API_KEY env_maintenance))
                 (city_lookup env_maintenance ''taipei'')) =
            Inl (''Request failed with status code 503'',
                 Some \<lparr>status = 503,
                       data = ObjectBody \<lparr>message = Some ''maintenance'', others = []\<rparr>\<rparr>)"
    by (simp add: env_maintenance_def env_rejecting_def body_maintenance_def)
  have k2: "truthy (CWA_API_KEY env_no_message)"
    by (simp add: env_no_message_def env_rejecting_def)
  have a2: "axios_get env_no_message
              (forecast_request (the (CWA_API_KEY env_no_message))
                 (city_lookup env_no_message ''taipei'')) =
            Inl (''Request failed with status code 503'',
                 Some \<lparr>status = 503,
                       data = ObjectBody \<lparr>message = None, others = [(''code'', ''E1'')]\<rparr>\<rparr>)"
    by (simp add: env_no_message_def env_rejecting_def body_no_message_def)
  show ?thesis
    using C4_upstream_error_passthrough [OF k1 a1] C4_upstream_error_passthrough [OF k2 a2]
    by simp
qed

section \<open>C5: The missing credential\<close>

text \<open>
  Claim C5. Without a credential (\<^verbatim>\<open>CWA_API_KEY\<close> undefined or empty), \<^verbatim>\<open>getWeatherData\<close> fails
  with the \<^verbatim>\<open>Error\<close> of line 35 and issues no request; the handler issues no request either and
  sends 500 with the server-error tag and that message.
\<close>

theorem C5_missing_credential:
  assumes "\<not> truthy (CWA_API_KEY e)"
  shows "getWeatherData e cityName = ([], Inl (Error msg_missing_key))
       \<and> requests (getCityWeather e cityKey fresh_res) = []
       \<and> sent (res (getCityWeather e cityKey fresh_res)) =
           [(500, ServerErrorBody tag_server_error msg_missing_key)]"
  using getWeatherData_no_key [OF assms]
    handler_server [of e cityKey "[]" "Error msg_missing_key"]
  by (simp add: handler_requests or_else_Some msg_missing_key_nonempty)

text \<open>
  An environment without the key.
\<close>

theorem C5_missing_credential_witness:
  "\<not> truthy (CWA_API_KEY env_no_key)
   \<and> getWeatherData env_no_key (Str Taipei) = ([], Inl (Error msg_missing_key))
   \<and> requests (getCityWeather env_no_key ''taipei'' fresh_res) = []
   \<and> sent (res (getCityWeather env_no_key ''taipei'' fresh_res)) =
       [(500, ServerErrorBody tag_server_error msg_missing_key)]"
proof -
  have h: "\<not> truthy (CWA_API_KEY env_no_key)" by (simp add: env_no_key_def)
  show ?thesis using h C5_missing_credential [OF h, of "Str Taipei" "''taipei''"] by simp
qed

section \<open>C6: The order of the weather elements\<close>

text \<open>
  Claim C6, as amended. For an aligned response in which no recognized code occurs twice,
  replacing the weather elements of the location record by any permutation of them leaves the
  result of the normalizer unchanged.
\<close>

theorem C6_element_order:
  assumes "location (records (data response)) = loc # locs"
    and "aligned (weatherElement loc)"
    and "distinct (filter recognized (map elementName (weatherElement loc)))"
    and "mset es' = mset (weatherElement loc)"
  shows "normalize cityName (with_elements es' response) = normalize cityName response"
proof (cases "weatherElement loc")
  case Nil
  then have "es' = []" using assms(4) by simp
  then show ?thesis
    using normalize_with_no_elements [OF assms(1)] normalize_no_elements [OF assms(1) Nil] by simp
next
  case (Cons first rest)
  then have "es' \<noteq> []" using assms(4) by auto
  then obtain first' rest' where es': "es' = first' # rest'" by (cases es') auto
  have "set es' = set (weatherElement loc)" using assms(4) by (rule mset_eq_setD)
  then have sets: "set es' = set (first # rest)" by (simp only: Cons)
  have al: "aligned (first # rest)" using assms(2) Cons by simp
  have di: "distinct (filter recognized (map elementName (first # rest)))" using assms(3) Cons by simp
  have ms: "mset (first' # rest') = mset (first # rest)" using assms(4) Cons es' by simp
  have first': "first' \<in> set (first # rest)" using sets es' by auto
  have len: "length (time e) = length (time first)" if "e \<in> set (first # rest)" for e
    using aligned_length [OF al that] by simp
  have same: "interval (first' # rest') j = interval (first # rest) j" if j: "j < length (time first)" for j
  proof -
    have all: "\<forall>e \<in> set (first # rest). j < length (time e)"
    proof
      fix e assume "e \<in> set (first # rest)"
      then have "length (time e) = length (time first)" by (rule len)
      then show "j < length (time e)" using j by (simp only:)
    qed
    then have all': "\<forall>e \<in> set (first' # rest'). j < length (time e)"
      by (simp only: sets [unfolded es'])
    have j': "j < length (time first')" using first' all by blast
    have "interval (first' # rest') j = Inr (fold (assign j) (first' # rest') (blank (time first' ! j)))"
      using all' by (rule interval_all_long)
    moreover have "interval (first # rest) j = Inr (fold (assign j) (first # rest) (blank (time first ! j)))"
      using all by (rule interval_all_long)
    moreover have "blank (time first' ! j) = blank (time first ! j)"
      by (rule aligned_blank [OF al first' _ j']) simp
    moreover have "fold (assign j) (first' # rest') f = fold (assign j) (first # rest) f" for f
      using di ms by (rule fold_assign_permuted)
    ultimately show ?thesis by (simp only:)
  qed
  have "for_loop (first' # rest') (length (time first)) 0 [] =
             for_loop (first # rest) (length (time first)) 0 []"
    by (rule for_loop_cong) (rule same)
  moreover have "length (time first') = length (time first)" by (rule len [OF first'])
  ultimately show ?thesis
    by (simp only: es' normalize_with_elements [OF assms(1)] normalize_elements [OF assms(1) Cons])
qed

text \<open>
  The six elements in reverse order.
\<close>

theorem C6_element_order_witness:
  "aligned (weatherElement loc_six)
   \<and> distinct (filter recognized (map elementName (weatherElement loc_six)))
   \<and> mset (rev six_elements) = mset (weatherElement loc_six)
   \<and> normalize (Str Taipei) (with_elements (rev six_elements) (response_with [loc_six])) =
       normalize (Str Taipei) (response_with [loc_six])
   \<and> normalize (Str Taipei) (response_with [loc_six]) = Inr data_six"
proof -
  have l: "location (records (data (response_with [loc_six]))) = loc_six # []"
    by (simp add: response_with_def)
  have a: "aligned (weatherElement loc_six)"
    by (simp add: loc_six_def six_elements_def el_def entry_def aligned_def)
  have d: "distinct (filter recognized (map elementName (weatherElement loc_six)))"
    by (simp add: loc_six_def six_elements_def el_def recognized_def)
  have m: "mset (rev six_elements) = mset (weatherElement loc_six)"
    by (simp add: loc_six_def)
  have out: "normalize (Str Taipei) (response_with [loc_six]) = Inr data_six"
    by (simp add: example_defs more_example_defs run_defs for_loop.simps)
  show ?thesis
    using C6_element_order [OF l a d m, of "Str Taipei"] a d m out
    by simp
qed

text \<open>
  Claim C6 as stated fails: two aligned elements both named \<^verbatim>\<open>Wx\<close>; the later one wins,
  so reversing them changes the \<^verbatim>\<open>weather\<close> field.
\<close>

theorem C6_counterexample:
  "aligned (weatherElement loc_two_wx)
   \<and> normalize (Str Taipei) (response_with [loc_two_wx]) = Inr data_rain
   \<and> normalize (Str Taipei)
        (with_elements (rev (weatherElement loc_two_wx)) (response_with [loc_two_wx])) = Inr data_sunny
   \<and> data_rain \<noteq> data_sunny"
  by (simp add: example_defs more_example_defs run_defs aux_defs for_loop.simps)

section \<open>C7: Unrecognized element codes\<close>

text \<open>
  Claim C7, as amended. When the first element is recognized and every unrecognized element
  has at least as many entries as the first one, the result of the normalizer is the result on
  the response with the unrecognized elements removed, and the callback leaves the forecast as
  it is on every unrecognized element.
\<close>

theorem C7_unrecognized_elements:
  assumes "location (records (data response)) = loc # locs"
    and "weatherElement loc = first # rest"
    and "recognized (elementName first)"
    and "\<forall>element \<in> set rest. \<not> recognized (elementName element) \<longrightarrow>
           length (time first) \<le> length (time element)"
  shows "normalize cityName response =
           normalize cityName
             (with_elements (filter (\<lambda>element. recognized (elementName element)) (first # rest)) response)
       \<and> (\<forall>element \<in> set rest. \<forall>i < length (time first). \<forall>f.
            \<not> recognized (elementName element) \<longrightarrow> callback i f element = Inr f)"
proof -
  let ?kept = "filter (\<lambda>element. recognized (elementName element)) rest"
  have kept: "filter (\<lambda>element. recognized (elementName element)) (first # rest) = first # ?kept"
    using assms(3) by simp
  have "for_loop (first # ?kept) (length (time first)) 0 [] =
        for_loop (first # rest) (length (time first)) 0 []"
  proof (rule for_loop_cong)
    fix j assume "j < length (time first)"
    then have "\<forall>element \<in> set rest. \<not> recognized (elementName element) \<longrightarrow> j < length (time element)"
      using assms(4) by fastforce
    from interval_filter [OF assms(3) this] show "interval (first # ?kept) j = interval (first # rest) j"
      by (simp only: kept)
  qed
  then have "normalize cityName response = normalize cityName (with_elements (first # ?kept) response)"
    by (simp only: normalize_with_elements [OF assms(1)] normalize_elements [OF assms(1,2)])
  moreover have "callback i f element = Inr f"
    if "element \<in> set rest" "i < length (time first)" "\<not> recognized (elementName element)"
    for element i f
    using that assms(4) by (intro callback_unrecognized) fastforce+
  ultimately show ?thesis unfolding kept by blast
qed

text \<open>
  A \<^verbatim>\<open>Wx\<close> element followed by an unrecognized element of the same length.
\<close>

theorem C7_unrecognized_elements_witness:
  "recognized (elementName (el ''Wx'' ''sunny''))
   \<and> \<not> recognized (elementName (el ''UVI'' ''7''))
   \<and> length (time (el ''Wx'' ''sunny'')) \<le> length (time (el ''UVI'' ''7''))
   \<and> normalize (Str Taipei) (response_with [loc_unknown]) =
       normalize (Str Taipei) (with_elements [el ''Wx'' ''sunny''] (response_with [loc_unknown]))
   \<and> normalize (Str Taipei) (response_with [loc_unknown]) = Inr data_sunny
   \<and> callback 0 (blank (entry ''06:00'' ''18:00'' ''x'')) (el ''UVI'' ''7'') =
       Inr (blank (entry ''06:00'' ''18:00'' ''x''))"
proof -
  have l: "location (records (data (response_with [loc_unknown]))) = loc_unknown # []"
    by (simp add: response_with_def)
  have e: "weatherElement loc_unknown = el ''Wx'' ''sunny'' # [el ''UVI'' ''7'']"
    by (simp add: loc_unknown_def)
  have r: "recognized (elementName (el ''Wx'' ''sunny''))"
    by (simp add: el_def recognized_def)
  have u: "\<not> recognized (elementName (el ''UVI'' ''7''))"
    by (simp add: el_def recognized_def)
  have n: "length (time (el ''Wx'' ''sunny'')) \<le> length (time (el ''UVI'' ''7''))"
    by (simp add: el_def)
  have long: "\<forall>element \<in> set [el ''UVI'' ''7'']. \<not> recognized (elementName element) \<longrightarrow>
                length (time (el ''Wx'' ''sunny'')) \<le> length (time element)"
    using n by simp
  have out: "normalize (Str Taipei) (response_with [loc_unknown]) = Inr data_sunny"
    by (simp add: example_defs more_example_defs run_defs for_loop.simps)
  have one: "(0::nat) < length (time (el ''Wx'' ''sunny''))" by (simp add: el_def)
  show ?thesis
    using C7_unrecognized_elements [OF l e r long, of "Str Taipei"] r u n out one
    by simp
qed

text \<open>
  Claim C7 as stated fails: an unrecognized element without entries makes the normalizer
  fail, while the response without that element is normalized.
\<close>

theorem C7_counterexample:
  "recognized (elementName (hd (weatherElement loc_unknown_short)))
   \<and> map recognized (map elementName (weatherElement loc_unknown_short)) = [True, False]
   \<and> normalize (Str Taipei) (response_with [loc_unknown_short]) = Inl (cannot_read ''parameter'')
   \<and> normalize (Str Taipei)
        (with_elements [el ''Wx'' ''sunny''] (response_with [loc_unknown_short])) = Inr data_sunny"
  by (simp add: example_defs more_example_defs run_defs aux_defs for_loop.simps)

section \<open>C8: The city lookup\<close>

text \<open>
  Claim C8, as amended. For each of the six keys the lookup yields the corresponding locale
  name, none of which is empty. For any other key nothing is raised: the lookup yields the
  property inherited from \<^verbatim>\<open>Object.prototype\<close> when the key names one, and \<^verbatim>\<open>undefined\<close>
  otherwise; with a credential configured the handler goes on and issues the upstream
  request with that value as \<^verbatim>\<open>locationName\<close>.
\<close>

theorem C8_city_lookup:
  "city_lookup e ''taipei'' = Str Taipei \<and> city_lookup e ''newtaipei'' = Str NewTaipei
   \<and> city_lookup e ''taoyuan'' = Str Taoyuan \<and> city_lookup e ''taichung'' = Str Taichung
   \<and> city_lookup e ''tainan'' = Str Tainan \<and> city_lookup e ''kaohsiung'' = Str Kaohsiung
   \<and> (\<forall>name \<in> {Taipei, NewTaipei, Taoyuan, Taichung, Tainan, Kaohsiung}. name \<noteq> [])
   \<and> (cityKey \<notin> {''taipei'', ''newtaipei'', ''taoyuan'', ''taichung'', ''tainan'', ''kaohsiung''} \<longrightarrow>
        city_lookup e cityKey =
          (case map_of (Object_prototype e) cityKey of
             Some inherited \<Rightarrow> inherited
           | None \<Rightarrow> Undefined)
        \<and> (truthy (CWA_API_KEY e) \<longrightarrow>
             requests (getCityWeather e cityKey res0) =
               [forecast_request (the (CWA_API_KEY e)) (city_lookup e cityKey)]))"
proof -
  have names: "\<forall>name \<in> {Taipei, NewTaipei, Taoyuan, Taichung, Tainan, Kaohsiung}. name \<noteq> []"
    by (simp add: Taipei_def NewTaipei_def Taoyuan_def Taichung_def Tainan_def Kaohsiung_def)
  have other: "city_lookup e cityKey =
                 (case map_of (Object_prototype e) cityKey of
                    Some inherited \<Rightarrow> inherited
                  | None \<Rightarrow> Undefined)"
    if "cityKey \<notin> {''taipei'', ''newtaipei'', ''taoyuan'', ''taichung'', ''tainan'', ''kaohsiung''}"
    using that by (simp add: city_lookup_def CITY_MAP_def)
  have reqs: "requests (getCityWeather e cityKey res0) =
                [forecast_request (the (CWA_API_KEY e)) (city_lookup e cityKey)]"
    if "truthy (CWA_API_KEY e)"
    using that by (simp add: handler_requests getWeatherData_def Let_def split: sum.splits prod.splits)
  show ?thesis using names other reqs
    by (simp add: city_lookup_def CITY_MAP_def)
qed

text \<open>The keys \<^verbatim>\<open>unknown\<close> and \<^verbatim>\<open>constructor\<close>, and the key \<^verbatim>\<open>tainan\<close>.\<close>

theorem C8_city_lookup_witness:
  "''unknown'' \<notin> {''taipei'', ''newtaipei'', ''taoyuan'', ''taichung'', ''tainan'', ''kaohsiung''}
   \<and> city_lookup (env_with (response_with [])) ''unknown'' = Undefined
   \<and> requests (getCityWeather (env_with (response_with [])) ''unknown'' fresh_res) =
       [forecast_request ''key'' Undefined]
   \<and> ''constructor'' \<notin> {''taipei'', ''newtaipei'', ''taoyuan'', ''taichung'', ''tainan'', ''kaohsiung''}
   \<and> city_lookup (env_with (response_with [])) ''constructor'' = native ''Object''
   \<and> requests (getCityWeather (env_with (response_with [])) ''constructor'' fresh_res) =
       [forecast_request ''key'' (native ''Object'')]
   \<and> city_lookup (env_with (response_with [])) ''tainan'' = Str Tainan \<and> Tainan \<noteq> []"
proof -
  have key: "truthy (CWA_API_KEY (env_with (response_with [])))"
    by (simp add: env_with_def)
  have k: "the (CWA_API_KEY (env_with (response_with []))) = ''key''"
    by (simp add: env_with_def)
  have p: "Object_prototype (env_with (response_with [])) = node_prototype"
    by (simp add: env_with_def)
  have u: "map_of node_prototype ''unknown'' = None"
    by (simp add: node_prototype_def)
  have c: "map_of node_prototype ''constructor'' = Some (native ''Object'')"
    by (simp add: node_prototype_def)
  show ?thesis
    using C8_city_lookup [of "env_with (response_with [])" "''unknown''" fresh_res]
          C8_city_lookup [of "env_with (response_with [])" "''constructor''" fresh_res]
          key k p u c
    by simp
qed

text \<open>
  Claim C8 as stated fails: the handlers bound to the keys \<^verbatim>\<open>unknown\<close> and \<^verbatim>\<open>constructor\<close>
  raise no configuration error; they call the upstream with \<^verbatim>\<open>undefined\<close> and with the
  inherited function as locale, and answer 200 with the first record.
\<close>

theorem C8_counterexample:
  "city_lookup (env_with (response_with [loc_new_taipei])) ''unknown'' = Undefined
   \<and> requests (getCityWeather (env_with (response_with [loc_new_taipei])) ''unknown'' fresh_res) =
       [forecast_request ''key'' Undefined]
   \<and> sent (res (getCityWeather (env_with (response_with [loc_new_taipei])) ''unknown'' fresh_res)) =
       [(200, SuccessBody True data_new_taipei)]
   \<and> city_lookup (env_with (response_with [loc_new_taipei])) ''constructor'' = native ''Object''
   \<and> requests (getCityWeather (env_with (response_with [loc_new_taipei])) ''constructor'' fresh_res) =
       [forecast_request ''key'' (native ''Object'')]
   \<and> sent (res (getCityWeather (env_with (response_with [loc_new_taipei])) ''constructor'' fresh_res)) =
       [(200, SuccessBody True data_new_taipei)]"
  by (simp add: example_defs run_defs for_loop.simps)

section \<open>C9: Time series of different lengths\<close>

text \<open>
  Claim C9. When some element of the first location record has fewer entries than the first
  element, the normalizer fails with the \<^verbatim>\<open>TypeError\<close> of reading \<^verbatim>\<open>parameter\<close> of a missing
  entry, and the handler sends 500 with the server-error tag. Entries beyond the first
  element's count are ignored: cutting every element to that count does not change the result.
\<close>

theorem C9_short_series:
  assumes "location (records (data response)) = loc # locs"
    and "weatherElement loc = first # rest"
  shows "((\<exists>element \<in> set (first # rest). length (time element) < length (time first)) \<longrightarrow>
            normalize cityName response = Inl (cannot_read ''parameter'')
            \<and> (truthy (CWA_API_KEY e)
                 \<and> axios_get e (forecast_request (the (CWA_API_KEY e)) (city_lookup e cityKey)) = Inr response
               \<longrightarrow> sent (res (getCityWeather e cityKey fresh_res)) =
                     [(500, ServerErrorBody tag_server_error (error_message (cannot_read ''parameter'')))]))
       \<and> normalize cityName (with_elements (map (cut_to (length (time first))) (first # rest)) response) =
           normalize cityName response"
proof -
  have fails: "normalize c response = Inl (cannot_read ''parameter'')"
    if "\<exists>element \<in> set (first # rest). length (time element) < length (time first)" for c
  proof -
    from that obtain element where "element \<in> set (first # rest)"
      and "length (time element) < length (time first)" by blast
    then have "for_loop (first # rest) (length (time first)) 0 [] = Inl (cannot_read ''parameter'')"
      by (rule for_loop_short)
    then show ?thesis by (simp add: normalize_elements [OF assms])
  qed
  have sends: "sent (res (getCityWeather e cityKey fresh_res)) =
                 [(500, ServerErrorBody tag_server_error (error_message (cannot_read ''parameter'')))]"
    if "\<exists>element \<in> set (first # rest). length (time element) < length (time first)"
      and "truthy (CWA_API_KEY e)"
      and "axios_get e (forecast_request (the (CWA_API_KEY e)) (city_lookup e cityKey)) = Inr response"
    using handler_normalize_fails [OF that(2,3) fails [OF that(1)]]
    by (simp add: cannot_read_response cannot_read_message)
  have "map (cut_to (length (time first))) (first # rest) =
          cut_to (length (time first)) first # map (cut_to (length (time first))) rest"
    by simp
  moreover have "length (time (cut_to (length (time first)) first)) = length (time first)"
    by (simp add: cut_to_def)
  ultimately have
    "normalize cityName (with_elements (map (cut_to (length (time first))) (first # rest)) response) =
       (case for_loop (map (cut_to (length (time first))) (first # rest)) (length (time first)) 0 [] of
          Inl e \<Rightarrow> Inl e
        | Inr fs \<Rightarrow> Inr \<lparr>city = locationName loc,
                           updateTime = datasetDescription (records (data response)),
                           forecasts = fs\<rparr>)"
    using normalize_with_elements [OF assms(1), of cityName "cut_to (length (time first)) first"
                                     "map (cut_to (length (time first))) rest"]
    by simp
  then have same: "normalize cityName (with_elements (map (cut_to (length (time first))) (first # rest)) response) =
                     normalize cityName response"
    by (simp only: for_loop_cut_to normalize_elements [OF assms])
  show ?thesis using fails sends same by blast
qed

text \<open>
  A \<^verbatim>\<open>PoP\<close> element shorter than the first element, and one that is longer.
\<close>

theorem C9_short_series_witness:
  "(\<exists>element \<in> set (weatherElement loc_short_pop).
       length (time element) < length (time (hd (weatherElement loc_short_pop))))
   \<and> normalize (Str Taipei) (response_with [loc_short_pop]) = Inl (cannot_read ''parameter'')
   \<and> sent (res (getCityWeather (env_with (response_with [loc_short_pop])) ''taipei'' fresh_res)) =
       [(500, ServerErrorBody tag_server_error (error_message (cannot_read ''parameter'')))]
   \<and> normalize (Str Taipei)
        (with_elements (map (cut_to 1) (weatherElement loc_long_pop)) (response_with [loc_long_pop])) =
       normalize (Str Taipei) (response_with [loc_long_pop])
   \<and> normalize (Str Taipei) (response_with [loc_long_pop]) = Inr data_long_pop"
proof -
  let ?wx = "\<lparr>elementName = ''Wx'',
              time = [entry ''06:00'' ''18:00'' ''sunny'', entry ''18:00'' ''06:00'' ''cloudy'']\<rparr>"
  let ?pop = "\<lparr>elementName = ''PoP'',
               time = [entry ''06:00'' ''18:00'' ''20'', entry ''18:00'' ''06:00'' ''30'']\<rparr>"
  have l1: "location (records (data (response_with [loc_short_pop]))) = loc_short_pop # []"
    by (simp add: response_with_def)
  have e1: "weatherElement loc_short_pop = ?wx # [el ''PoP'' ''20'']"
    by (simp add: loc_short_pop_def)
  have short: "\<exists>element \<in> set (?wx # [el ''PoP'' ''20'']). length (time element) < length (time ?wx)"
    by (simp add: el_def)
  have key: "truthy (CWA_API_KEY (env_with (response_with [loc_short_pop])))
    \<and> axios_get (env_with (response_with [loc_short_pop]))
          (forecast_request (the (CWA_API_KEY (env_with (response_with [loc_short_pop]))))
             (city_lookup (env_with (response_with [loc_short_pop])) ''taipei'')) =
        Inr (response_with [loc_short_pop])"
    by (simp add: env_with_def)
  have l2: "location (records (data (response_with [loc_long_pop]))) = loc_long_pop # []"
    by (simp add: response_with_def)
  have e2: "weatherElement loc_long_pop = el ''Wx'' ''sunny'' # [?pop]"
    by (simp add: loc_long_pop_def)
  have n2: "length (time (el ''Wx'' ''sunny'')) = 1" by (simp add: el_def)
  have out: "normalize (Str Taipei) (response_with [loc_long_pop]) = Inr data_long_pop"
    by (simp add: example_defs more_example_defs run_defs for_loop.simps)
  show ?thesis
    using C9_short_series [OF l1 e1, of "Str Taipei" "env_with (response_with [loc_short_pop])" "''taipei''"]
          C9_short_series [OF l2 e2, of "Str Taipei"]
          short key out
    by (simp add: e1 e2 n2)
qed

section \<open>C10: A location record without weather elements\<close>

text \<open>
  Claim C10. When the first location record has no weather element, the normalizer fails
  with the \<^verbatim>\<open>TypeError\<close> of reading \<^verbatim>\<open>time\<close> of \<^verbatim>\<open>undefined\<close> and the handler sends 500
  with the server-error tag. A successful normalization has a first location record with at
  least one weather element.
\<close>

theorem C10_empty_weather_elements:
  "(location (records (data response)) = loc # locs \<and> weatherElement loc = [] \<longrightarrow>
      normalize cityName response = Inl (cannot_read ''time'')
      \<and> (truthy (CWA_API_KEY e)
           \<and> axios_get e (forecast_request (the (CWA_API_KEY e)) (city_lookup e cityKey)) = Inr response
         \<longrightarrow> sent (res (getCityWeather e cityKey fresh_res)) =
               [(500, ServerErrorBody tag_server_error (error_message (cannot_read ''time'')))]))
   \<and> (normalize cityName response = Inr w \<longrightarrow>
        (\<exists>l ls first rest. location (records (data response)) = l # ls
                           \<and> weatherElement l = first # rest))"
proof -
  have fails: "normalize c response = Inl (cannot_read ''time'')"
    if "location (records (data response)) = loc # locs" "weatherElement loc = []" for c
    using that by (rule normalize_no_elements)
  have sends: "sent (res (getCityWeather e cityKey fresh_res)) =
                 [(500, ServerErrorBody tag_server_error (error_message (cannot_read ''time'')))]"
    if "location (records (data response)) = loc # locs" "weatherElement loc = []"
      and "truthy (CWA_API_KEY e)"
      and "axios_get e (forecast_request (the (CWA_API_KEY e)) (city_lookup e cityKey)) = Inr response"
    using handler_normalize_fails [OF that(3,4) fails [OF that(1,2)]]
    by (simp add: cannot_read_response cannot_read_message)
  have needs: "\<exists>l ls first rest. location (records (data response)) = l # ls
                                 \<and> weatherElement l = first # rest"
    if "normalize cityName response = Inr w"
  proof (cases "location (records (data response))")
    case Nil
    then show ?thesis using that by (simp add: normalize_no_location)
  next
    case (Cons l ls)
    show ?thesis
    proof (cases "weatherElement l")
      case Nil
      then show ?thesis using that Cons by (simp add: normalize_no_elements)
    next
      case (Cons first rest)
      then show ?thesis using \<open>location (records (data response)) = l # ls\<close> by simp
    qed
  qed
  show ?thesis using fails sends needs by blast
qed

text \<open>
  A location record without elements, and one with an element.
\<close>

theorem C10_empty_weather_elements_witness:
  "normalize (Str Taipei) (response_with [loc_no_elements]) = Inl (cannot_read ''time'')
   \<and> sent (res (getCityWeather (env_with (response_with [loc_no_elements])) ''taipei'' fresh_res)) =
       [(500, ServerErrorBody tag_server_error (error_message (cannot_read ''time'')))]
   \<and> normalize (Str Taipei) (response_with [loc_new_taipei]) = Inr data_new_taipei
   \<and> (\<exists>l ls first rest. location (records (data (response_with [loc_new_taipei]))) = l # ls
                       \<and> weatherElement l = first # rest)"
proof -
  have loc: "location (records (data (response_with [loc_no_elements]))) = loc_no_elements # []
             \<and> weatherElement loc_no_elements = []"
    by (simp add: response_with_def loc_no_elements_def)
  have key: "truthy (CWA_API_KEY (env_with (response_with [loc_no_elements])))
    \<and> axios_get (env_with (response_with [loc_no_elements]))
               (forecast_request (the (CWA_API_KEY (env_with (response_with [loc_no_elements]))))
                  (city_lookup (env_with (response_with [loc_no_elements])) ''taipei'')) =
        Inr (response_with [loc_no_elements])"
    by (simp add: env_with_def)
  have ok: "normalize (Str Taipei) (response_with [loc_new_taipei]) = Inr data_new_taipei"
    by (simp add: example_defs run_defs for_loop.simps)
  show ?thesis
    using C10_empty_weather_elements
            [of "response_with [loc_no_elements]" loc_no_elements "[]" "Str Taipei"
                "env_with (response_with [loc_no_elements])" "''taipei''"]
          C10_empty_weather_elements
            [of "response_with [loc_new_taipei]" _ _ "Str Taipei" _ _ data_new_taipei]
          loc key ok
    by simp
qed

end
